theory Spec2Isabelle
  imports Complex_Main "HOL-Library.Sublist"
begin

section \<open>JavaScript strings\<close>

text \<open>
  A JavaScript string is a sequence of UTF-16 code units; \<open>length\<close> is the \<open>.length\<close> of
  the source.  The string literals of \<open>main.ts\<close> and \<open>MyCompanionView.ts\<close> are mostly Chinese,
  so they are written here as their code units, with an English gloss.
\<close>

type_synonym jsstring = "nat list"

text \<open>The code units that \<open>String.prototype.trim\<close> removes (WhiteSpace and LineTerminator).\<close>

definition isWhiteSpace :: "nat \<Rightarrow> bool" where
  "isWhiteSpace c = (c \<in> set [9, 10, 11, 12, 13, 32, 160, 5760,
      8192, 8193, 8194, 8195, 8196, 8197, 8198, 8199, 8200, 8201, 8202,
      8232, 8233, 8239, 8287, 12288, 65279])"

definition trim :: "jsstring \<Rightarrow> jsstring" where
  "trim s = rev (dropWhile isWhiteSpace (rev (dropWhile isWhiteSpace s)))"

text \<open>\<open>s.includes(sub)\<close>: \<open>sub\<close> occurs in \<open>s\<close> as a contiguous block.\<close>

fun includesStr :: "jsstring \<Rightarrow> jsstring \<Rightarrow> bool" where
  "includesStr [] sub = (sub = [])"
| "includesStr (c # cs) sub = (prefix sub (c # cs) \<or> includesStr cs sub)"

text \<open>\<open>s.split('\n')\<close>: code unit 10 separates the lines; the empty string gives one empty line.\<close>

fun splitNl :: "jsstring \<Rightarrow> jsstring list" where
  "splitNl [] = [[]]"
| "splitNl (c # cs) =
     (if c = 10 then [] # splitNl cs
      else (case splitNl cs of
              [] \<Rightarrow> [[c]]
            | l # ls \<Rightarrow> (c # l) # ls))"

text \<open>\<open>lines.join('\n')\<close>.\<close>

fun joinNl :: "jsstring list \<Rightarrow> jsstring" where
  "joinNl [] = []"
| "joinNl [l] = l"
| "joinNl (l # ls) = l @ 10 # joinNl ls"

text \<open>\<open>xs.slice(a, b)\<close> for non-negative \<open>a\<close> and \<open>b\<close>: both ends are clipped to the array.\<close>

definition slice :: "'a list \<Rightarrow> nat \<Rightarrow> nat \<Rightarrow> 'a list" where
  "slice xs a b = take (b - a) (drop a xs)"

subsection \<open>The string literals of the source\<close>

text \<open>Default companion name (a proper name, seven Chinese characters).\<close>

definition DEFAULT_companionName :: jsstring where
  "DEFAULT_companionName = [38463, 37027, 20811, 33832, 25096, 25289, 26031]"

text \<open>sendChatMessage without a chat: "Cannot start chatting, please check the API Key or
  initialise the Chat client."\<close>

definition msg_chatNotConfigured :: jsstring where
  "msg_chatNotConfigured = [26080, 27861, 24320, 22987, 32842, 22825, 65292, 35831, 26816,
     26597, 32, 65, 80, 73, 32, 75, 101, 121, 32, 25110, 21021, 22987, 21270, 32, 67, 104,
     97, 116, 32, 23458, 25143, 31471, 12290]"

text \<open>sendChatMessage, catch branch: "Sorry, my network is fluctuating again, please try
  again later."\<close>

definition msg_chatApology :: jsstring where
  "msg_chatApology = [25265, 27465, 65292, 25105, 30340, 32593, 32476, 21448, 27874, 21160,
     20102, 65292, 35831, 31245, 21518, 20877, 35797, 12290]"

text \<open>getAiResponse without a client: "Cannot connect to the AI service, please check the
  API Key!"\<close>

definition msg_noAiService :: jsstring where
  "msg_noAiService = [26080, 27861, 36830, 25509, 32, 65, 73, 32, 26381, 21153, 65292,
     35831, 26816, 26597, 32, 65, 80, 73, 32, 75, 101, 121, 65281]"

text \<open>getAiResponse, catch branch for a greeting: "I seem to be a bit disconnected..."\<close>

definition msg_greetApology :: jsstring where
  "msg_greetApology = [25105, 22909, 20687, 26377, 28857, 26029, 32447, 20102, 46, 46, 46]"

text \<open>getAiResponse, catch branch for a comment: "The network is fluctuating a bit, wait a
  moment."\<close>

definition msg_commentApology :: jsstring where
  "msg_commentApology = [32593, 32476, 26377, 28857, 27874, 21160, 65292, 31245, 31561,
     19968, 19979, 12290]"

text \<open>The diagnostic for an empty reply is \<open>diag_prefix @ reason @ diag_suffix\<close>: a thinking-face
  emoji (a surrogate pair), " AI thinking failed (Reason: ", the reason, ")" and a full stop.\<close>

definition diag_prefix :: jsstring where
  "diag_prefix = [55358, 56596, 32, 65, 73, 24605, 32771, 22833, 36133, 32, 40, 82, 101, 97,
     115, 111, 110, 58, 32]"

definition diag_suffix :: jsstring where
  "diag_suffix = [41, 12290]"

text \<open>The sentinel \<open>N/A\<close>.\<close>

definition str_NA :: jsstring where
  "str_NA = [78, 47, 65]"

text \<open>The two markers the trigger gate looks for in the status bar: "comment" and "think".\<close>

definition marker_comment :: jsstring where
  "marker_comment = [35780, 35770]"

definition marker_thinking :: jsstring where
  "marker_thinking = [24605, 32771]"

text \<open>Status bar texts, each appended to the companion name: ": standing by..." (at load and
  after a rename), ": thinking...", " (comment): ", ": on standby..." (after a comment),
  ": API Key missing! Please check the settings." and the separator ": " of the greeting.\<close>

definition status_standby_initial :: jsstring where
  "status_standby_initial = [58, 32, 27491, 22312, 24453, 21629, 20013, 46, 46, 46]"

definition status_thinking :: jsstring where
  "status_thinking = [58, 32, 24605, 32771, 20013, 46, 46, 46]"

definition status_comment_infix :: jsstring where
  "status_comment_infix = [32, 40, 35780, 35770, 41, 58, 32]"

definition status_standby :: jsstring where
  "status_standby = [58, 32, 24453, 21629, 20013, 46, 46, 46]"

definition status_missingKey :: jsstring where
  "status_missingKey = [58, 32, 32570, 23569, 32, 65, 80, 73, 32, 75, 101, 121, 65281,
     35831, 26816, 26597, 35774, 32622, 12290]"

definition status_sep :: jsstring where
  "status_sep = [58, 32]"

text \<open>The chat panel: "Please enter the API Key in the settings!" (after a cross mark), the
  senders "System" and "Me".\<close>

definition view_needKey :: jsstring where
  "view_needKey = [10060, 32, 35831, 22312, 35774, 32622, 20013, 36755, 20837, 32, 65, 80,
     73, 32, 75, 101, 121, 65281]"

definition view_system :: jsstring where
  "view_system = [31995, 32479]"

definition view_me :: jsstring where
  "view_me = [25105]"

section \<open>Data of the plugin\<close>

text \<open>The settings.  The probability is a JavaScript number; it is only ever compared, so it
  is a real here.\<close>

record settings =
  apiKey :: jsstring
  companionName :: jsstring
  greetingEnabled :: bool
  randomCommentProbability :: real

definition DEFAULT_SETTINGS :: settings where
  "DEFAULT_SETTINGS = \<lparr> apiKey = [], companionName = DEFAULT_companionName,
     greetingEnabled = True, randomCommentProbability = 1 / 10 \<rparr>"

text \<open>
  \<open>Part\<close>, \<open>Content\<close>, the candidates and the response of the remote service, with every
  optional field as an option.  The top-level \<open>text\<close> of a response is kept as a field of its
  own, the way \<open>getAiResponse\<close> reads it.
\<close>

record part =
  p_text :: "jsstring option"

record content =
  ct_role :: "jsstring option"
  ct_parts :: "part list option"

record candidate =
  c_content :: "content option"
  c_finishReason :: "jsstring option"

record response =
  r_text :: "jsstring option"
  r_candidates :: "candidate list option"

text \<open>Whatever a remote call throws.\<close>

datatype error = Exception jsstring

text \<open>
  The objects made with \<open>new GoogleGenAI\<close> and \<open>ai.chats.create\<close>.  Each carries the address it
  was allocated at, so that a session and its replacement are different objects.  A chat keeps
  the configuration it was created with; the persona text is a template over the companion
  name alone, so the chat records that name.
\<close>

record client =
  clientId :: nat
  clientApiKey :: jsstring

record chat =
  chatId :: nat
  chatApiKey :: jsstring
  chatModel :: string
  chatPersonaName :: jsstring
  chatTemperature :: real
  chatMaxOutputTokens :: nat

text \<open>The fields of \<open>MyAiCompanionPlugin\<close>; \<open>statusBarItemEl\<close> is the text of the status bar
  element and \<open>heapNext\<close> the next free address.\<close>

record plugin =
  settings :: settings
  statusBarItemEl :: jsstring
  ai :: "client option"
  chatHistory :: "content list"
  companionChat :: "chat option"
  lastTextLength :: nat
  lastCursorLine :: nat
  heapNext :: nat

section \<open>Clients and sessions\<close>

definition updateStatusBar :: "jsstring \<Rightarrow> plugin \<Rightarrow> plugin" where
  "updateStatusBar txt s = s\<lparr> statusBarItemEl := txt \<rparr>"

definition initializeChatClient :: "plugin \<Rightarrow> plugin" where
  "initializeChatClient s =
     (case ai s of
        Some c \<Rightarrow>
          s\<lparr> chatHistory := [],
             companionChat := Some \<lparr> chatId = heapNext s, chatApiKey = clientApiKey c,
                chatModel = ''gemini-2.5-flash'',
                chatPersonaName = companionName (settings s),
                chatTemperature = 8 / 10, chatMaxOutputTokens = 2048 \<rparr>,
             heapNext := heapNext s + 1 \<rparr>
      | None \<Rightarrow> s\<lparr> companionChat := None \<rparr>)"

definition initializeGeminiClient :: "plugin \<Rightarrow> plugin" where
  "initializeGeminiClient s =
     initializeChatClient
       (if apiKey (settings s) \<noteq> []
        then s\<lparr> ai := Some \<lparr> clientId = heapNext s, clientApiKey = apiKey (settings s) \<rparr>,
                heapNext := heapNext s + 1 \<rparr>
        else s\<lparr> ai := None \<rparr>)"

text \<open>
  \<open>saveSettings\<close> awaits \<open>saveData\<close>, the write to the host's store, and reinitialises the
  client after it.  It is suspended at the await, so the definition is the function from
  the moment the write settles: \<open>stored\<close> is how it settled and \<open>s\<close> the plugin at that
  moment, which other handlers may have changed since the call.  A rejected write is thrown
  on to the caller and nothing is reinitialised.  The result is what \<open>saveSettings\<close> returns
  or throws, and the plugin afterwards.
\<close>

definition saveSettings :: "error + unit \<Rightarrow> plugin \<Rightarrow> (error + unit) \<times> plugin" where
  "saveSettings stored s =
     (case stored of
        Inl e \<Rightarrow> (Inl e, s)
      | Inr _ \<Rightarrow> (Inr (), initializeGeminiClient s))"

text \<open>\<open>onload\<close>, up to the first status text; \<open>loaded\<close> is what \<open>loadSettings\<close> assembled from
  the defaults and the stored data.\<close>

definition onload :: "settings \<Rightarrow> plugin" where
  "onload loaded =
     (let s0 = \<lparr> settings = loaded, statusBarItemEl = [], ai = None, chatHistory = [],
                 companionChat = None, lastTextLength = 0, lastCursorLine = 0,
                 heapNext = 0 \<rparr>;
          s1 = initializeGeminiClient s0;
          s2 = initializeChatClient s1
      in updateStatusBar (companionName (settings s2) @ status_standby_initial) s2)"

section \<open>Interactive chat\<close>

text \<open>
  \<open>sendChatMessage\<close>.  The two remote steps are \<open>companionChat.sendMessage\<close> and
  \<open>companionChat.getHistory\<close>; what each of them does is the service's business, so their
  outcomes are arguments: \<open>Inl\<close> an exception, \<open>Inr\<close> the value.  The result is the returned
  string and the plugin afterwards.
\<close>

definition sendChatMessage ::
  "jsstring \<Rightarrow> plugin \<Rightarrow> error + response \<Rightarrow> error + content list \<Rightarrow> jsstring \<times> plugin" where
  "sendChatMessage message s sendOutcome historyOutcome =
     (case companionChat s of
        None \<Rightarrow> (msg_chatNotConfigured, s)
      | Some _ \<Rightarrow>
          (case sendOutcome of
             Inl _ \<Rightarrow> (msg_chatApology, s)
           | Inr resp \<Rightarrow>
               (case historyOutcome of
                  Inl _ \<Rightarrow> (msg_chatApology, s)
                | Inr h \<Rightarrow>
                    (trim (case r_text resp of None \<Rightarrow> [] | Some t \<Rightarrow> t),
                     s\<lparr> chatHistory := h \<rparr>))))"

text \<open>
  \<open>handleSendMessage\<close> of the chat panel: the messages it leaves on display, as
  (text, sender, is-from-user), and the plugin afterwards.  Its own catch branch is never
  taken, because \<open>sendChatMessage\<close> returns a string on every path.
\<close>

definition handleSendMessage ::
  "jsstring \<Rightarrow> plugin \<Rightarrow> error + response \<Rightarrow> error + content list
     \<Rightarrow> (jsstring \<times> jsstring \<times> bool) list \<times> plugin" where
  "handleSendMessage inputValue s sendOutcome historyOutcome =
     (let message = trim inputValue in
      if message = [] then ([], s)
      else (case companionChat s of
              None \<Rightarrow> ([(view_needKey, view_system, False)], s)
            | Some _ \<Rightarrow>
                (let (aiResponse, s') = sendChatMessage message s sendOutcome historyOutcome
                 in ([(message, view_me, True),
                      (aiResponse, companionName (settings s'), False)], s'))))"

section \<open>One-shot completions\<close>

text \<open>The first argument of \<open>getAiResponse\<close>, \<open>'greet' | 'comment'\<close>.\<close>

datatype reqType = Greet | Comment

text \<open>
  The text extraction of \<open>getAiResponse\<close>: plan A reads the top-level text when it is
  truthy; plan B, in the \<open>else if\<close>, reads the first part of the first candidate when the
  candidates, the content and the parts are all there.
\<close>

definition responseText :: "response \<Rightarrow> jsstring" where
  "responseText result =
     (if (case r_text result of None \<Rightarrow> False | Some t \<Rightarrow> t \<noteq> [])
      then trim (case r_text result of None \<Rightarrow> [] | Some t \<Rightarrow> t)
      else (case r_candidates result of
              Some (c # _) \<Rightarrow>
                (case c_content c of
                   Some ct \<Rightarrow>
                     (case ct_parts ct of
                        Some (p # _) \<Rightarrow> trim (case p_text p of None \<Rightarrow> [] | Some t \<Rightarrow> t)
                      | _ \<Rightarrow> [])
                 | None \<Rightarrow> [])
            | _ \<Rightarrow> []))"

text \<open>
  The text that plan B reads, \<open>parts[0].text ?? ''\<close>, when its condition holds: there is a
  first candidate, it has a content, and the content has a first part.
\<close>

definition firstPartText :: "response \<Rightarrow> jsstring option" where
  "firstPartText result =
     (case r_candidates result of
        Some (c # _) \<Rightarrow>
          (case c_content c of
             Some ct \<Rightarrow>
               (case ct_parts ct of
                  Some (p # _) \<Rightarrow> Some (case p_text p of None \<Rightarrow> [] | Some t \<Rightarrow> t)
                | _ \<Rightarrow> None)
           | None \<Rightarrow> None)
      | _ \<Rightarrow> None)"

text \<open>\<open>result.candidates?.[0]?.finishReason || 'N/A'\<close>.\<close>

definition reason :: "response \<Rightarrow> jsstring" where
  "reason result =
     (case r_candidates result of
        Some (c # _) \<Rightarrow>
          (case c_finishReason c of
             Some f \<Rightarrow> if f \<noteq> [] then f else str_NA
           | None \<Rightarrow> str_NA)
      | _ \<Rightarrow> str_NA)"

text \<open>
  What \<open>getAiResponse\<close> does once \<open>generateContent\<close> has settled: the rest of the \<open>try\<close> block
  on a result, the \<open>catch\<close> block on an exception.  Nothing here reads the plugin.
\<close>

definition afterGenerateContent :: "reqType \<Rightarrow> error + response \<Rightarrow> jsstring" where
  "afterGenerateContent type outcome =
     (case outcome of
        Inl _ \<Rightarrow> (if type = Greet then msg_greetApology else msg_commentApology)
      | Inr result \<Rightarrow>
          (if responseText result = []
           then diag_prefix @ reason result @ diag_suffix
           else responseText result))"

text \<open>
  \<open>getAiResponse\<close>, with the outcome of \<open>generateContent\<close> as an argument.  The prompt built
  from \<open>content\<close> goes to the service only; it does not reach the returned string except
  through that outcome.
\<close>

definition getAiResponse :: "plugin \<Rightarrow> reqType \<Rightarrow> jsstring \<Rightarrow> error + response \<Rightarrow> jsstring" where
  "getAiResponse s type content outcome =
     (case ai s of
        None \<Rightarrow> msg_noAiService
      | Some _ \<Rightarrow> afterGenerateContent type outcome)"

definition greetUser :: "plugin \<Rightarrow> error + response \<Rightarrow> plugin" where
  "greetUser s outcome =
     (if greetingEnabled (settings s) \<and> ai s \<noteq> None
      then updateStatusBar
             (companionName (settings s) @ status_sep @ getAiResponse s Greet [] outcome) s
      else s)"

section \<open>The editor trigger\<close>

text \<open>What \<open>handleEditorChange\<close> reads from the editor: the text and the cursor's line.\<close>

record editor =
  getValue :: jsstring
  cursorLine :: nat

text \<open>The local \<open>isEnterPress\<close>, computed against the snapshot of the previous event.\<close>

definition isEnterPress :: "plugin \<Rightarrow> editor \<Rightarrow> bool" where
  "isEnterPress s e =
     (cursorLine e > lastCursorLine s \<and> length (getValue e) > lastTextLength s)"

text \<open>The local \<open>contextContent\<close> (step 6 of the source).\<close>

definition contextContent :: "jsstring \<Rightarrow> nat \<Rightarrow> jsstring" where
  "contextContent currentContent line =
     (let lines = splitNl currentContent;
          endLine = line;
          startLine = nat (max 0 (int endLine - 4))
      in trim (joinNl (slice lines startLine (endLine + 1))))"

text \<open>
  \<open>handleEditorChange\<close>: the plugin afterwards and, when the 100 ms timer is set, the context
  it will comment on.  \<open>random\<close> is the value of \<open>Math.random()\<close>, were it drawn.
\<close>

definition handleEditorChange :: "editor \<Rightarrow> real \<Rightarrow> plugin \<Rightarrow> plugin \<times> jsstring option" where
  "handleEditorChange e random s =
     (let currentContent = getValue e;
          currentLength = length currentContent;
          currentLine = cursorLine e;
          enter = isEnterPress s e;
          s' = s\<lparr> lastTextLength := currentLength, lastCursorLine := currentLine \<rparr>
      in if \<not> enter then (s', None)
         else if ai s' \<noteq> None \<and> random < randomCommentProbability (settings s')
         then (let ctx = contextContent currentContent currentLine;
                   currentStatus = statusBarItemEl s'
               in if ctx \<noteq> [] \<and> \<not> includesStr currentStatus marker_comment
                     \<and> \<not> includesStr currentStatus marker_thinking
                  then (s', Some ctx)
                  else (s', None))
         else (s', None))"

section \<open>The settings tab\<close>

text \<open>
  Each of the four \<open>onChange\<close> handlers of \<open>MySettingTab\<close> assigns one setting and then awaits
  \<open>saveSettings\<close>.  The first four definitions are the handlers up to that await; \<open>parsed\<close> is
  \<open>parseFloat(value)\<close>, \<open>None\<close> for NaN.
\<close>

definition changeCompanionName :: "jsstring \<Rightarrow> plugin \<Rightarrow> plugin" where
  "changeCompanionName v s = s\<lparr> settings := (settings s)\<lparr> companionName := v \<rparr> \<rparr>"

definition changeGreetingEnabled :: "bool \<Rightarrow> plugin \<Rightarrow> plugin" where
  "changeGreetingEnabled v s = s\<lparr> settings := (settings s)\<lparr> greetingEnabled := v \<rparr> \<rparr>"

definition changeRandomCommentProbability :: "real option \<Rightarrow> plugin \<Rightarrow> plugin" where
  "changeRandomCommentProbability parsed s =
     (let numValue =
            (case parsed of
               None \<Rightarrow> randomCommentProbability DEFAULT_SETTINGS
             | Some x \<Rightarrow>
                 if x < 1 / 100 \<or> x > 1
                 then randomCommentProbability DEFAULT_SETTINGS else x)
      in s\<lparr> settings := (settings s)\<lparr> randomCommentProbability := numValue \<rparr> \<rparr>)"

definition changeApiKey :: "jsstring \<Rightarrow> plugin \<Rightarrow> plugin" where
  "changeApiKey v s = s\<lparr> settings := (settings s)\<lparr> apiKey := v \<rparr> \<rparr>"

text \<open>
  A handler suspended at its \<open>await this.plugin.saveSettings()\<close>, and the rest of it once the
  write has settled: \<open>saveSettings\<close> runs on, and after it the handler of the name sets the
  status bar; the other three have nothing left to do.  When \<open>saveSettings\<close> throws, so does
  the handler, at once.
\<close>

datatype handler = NameHandler | GreetingHandler | ProbabilityHandler | ApiKeyHandler

definition resumeHandler :: "handler \<Rightarrow> error + unit \<Rightarrow> plugin \<Rightarrow> (error + unit) \<times> plugin" where
  "resumeHandler h stored s =
     (case saveSettings stored s of
        (Inl e, s') \<Rightarrow> (Inl e, s')
      | (Inr _, s') \<Rightarrow>
          (Inr (),
           if h = NameHandler
           then updateStatusBar (companionName (settings s') @ status_standby_initial) s'
           else s'))"

section \<open>The event loop\<close>

text \<open>
  The host delivers events one at a time.  Besides the plugin, the loop holds what the
  plugin has put into it.  From the ambient comments: the contexts whose 100 ms timer has
  not fired yet, the contexts whose \<open>generateContent\<close> call has been issued and has not
  settled, and the number of 5 s timers that will put the status bar back to standby.  From
  the settings tab: the handlers waiting for their write to the store.  From \<open>onload\<close>: the
  callbacks given to \<open>onLayoutReady\<close>, until the layout is ready; the one that seeds the
  snapshot is always there, and \<open>onLayout\<close> keeps whether the one that greets was registered,
  which \<open>onload\<close> decides from the greeting flag it has just loaded.
\<close>

record world =
  plug :: plugin
  scheduled :: "jsstring list"
  outstanding :: "jsstring list"
  reverts :: nat
  saving :: "handler list"
  onLayout :: "bool option"

datatype event =
    EditorChange editor real
  | CommentTimer
  | CommentResponse nat "error + response"
  | RevertTimer
  | LayoutReady "error + response" "editor option option"
  | ChangeCompanionName jsstring
  | ChangeGreetingEnabled bool
  | ChangeProbability "real option"
  | ChangeApiKey jsstring
  | SaveSettled nat "error + unit"
  | SendMessage jsstring "error + response" "error + content list"

text \<open>
  The callbacks of \<open>onLayoutReady\<close>.  The first, when \<open>onload\<close> registered it, greets if there
  is a client (\<open>greetUser\<close> reads the greeting flag again) and otherwise shows the missing-key
  notice without reading the flag.  The second seeds the snapshot from the active editor,
  whose \<open>editor\<close> may itself be missing.  The greeting's round trip is taken in one step, and
  so is the round trip of an interactive send.
\<close>

definition layoutReady ::
  "bool \<Rightarrow> error + response \<Rightarrow> editor option option \<Rightarrow> plugin \<Rightarrow> plugin" where
  "layoutReady registered outcome activeEditor s =
     (let s1 = (if registered
                then (if ai s \<noteq> None then greetUser s outcome
                      else updateStatusBar (companionName (settings s) @ status_missingKey) s)
                else s)
      in case activeEditor of
           None \<Rightarrow> s1
         | Some None \<Rightarrow> s1\<lparr> lastTextLength := 0, lastCursorLine := 0 \<rparr>
         | Some (Some e) \<Rightarrow>
             s1\<lparr> lastTextLength := length (getValue e), lastCursorLine := cursorLine e \<rparr>)"

text \<open>
  One event.  The 100 ms callback sets the thinking text and calls \<open>getAiResponse\<close>; without
  a client that call returns at once, otherwise the comment joins the outstanding ones.  Timers
  of equal delay fire in the order they were set; the outstanding calls settle in any order,
  so the event says which.  A settings edit runs its handler up to the await and leaves it
  waiting; the writes settle in any order too, each accepted or rejected, and the handler
  then runs to its end.  What a handler throws reaches nobody.  The layout becomes ready
  once.
\<close>

fun step :: "event \<Rightarrow> world \<Rightarrow> world" where
  "step (EditorChange e random) w =
     (case handleEditorChange e random (plug w) of
        (s', None) \<Rightarrow> w\<lparr> plug := s' \<rparr>
      | (s', Some ctx) \<Rightarrow> w\<lparr> plug := s', scheduled := scheduled w @ [ctx] \<rparr>)"
| "step CommentTimer w =
     (case scheduled w of
        [] \<Rightarrow> w
      | ctx # rest \<Rightarrow>
          (let s1 = updateStatusBar (companionName (settings (plug w)) @ status_thinking) (plug w)
           in case ai s1 of
                None \<Rightarrow>
                  w\<lparr> plug := updateStatusBar
                               (companionName (settings s1) @ status_comment_infix
                                  @ getAiResponse s1 Comment ctx (Inl (Exception []))) s1,
                     scheduled := rest, reverts := reverts w + 1 \<rparr>
              | Some _ \<Rightarrow>
                  w\<lparr> plug := s1, scheduled := rest, outstanding := outstanding w @ [ctx] \<rparr>))"
| "step (CommentResponse i outcome) w =
     (if i < length (outstanding w)
      then w\<lparr> plug := updateStatusBar
                         (companionName (settings (plug w)) @ status_comment_infix
                            @ afterGenerateContent Comment outcome) (plug w),
              outstanding := take i (outstanding w) @ drop (Suc i) (outstanding w),
              reverts := reverts w + 1 \<rparr>
      else w)"
| "step RevertTimer w =
     (if reverts w = 0 then w
      else w\<lparr> plug := updateStatusBar (companionName (settings (plug w)) @ status_standby) (plug w),
              reverts := reverts w - 1 \<rparr>)"
| "step (LayoutReady outcome activeEditor) w =
     (case onLayout w of
        None \<Rightarrow> w
      | Some registered \<Rightarrow>
          w\<lparr> plug := layoutReady registered outcome activeEditor (plug w), onLayout := None \<rparr>)"
| "step (ChangeCompanionName v) w =
     w\<lparr> plug := changeCompanionName v (plug w), saving := saving w @ [NameHandler] \<rparr>"
| "step (ChangeGreetingEnabled v) w =
     w\<lparr> plug := changeGreetingEnabled v (plug w), saving := saving w @ [GreetingHandler] \<rparr>"
| "step (ChangeProbability parsed) w =
     w\<lparr> plug := changeRandomCommentProbability parsed (plug w),
        saving := saving w @ [ProbabilityHandler] \<rparr>"
| "step (ChangeApiKey v) w =
     w\<lparr> plug := changeApiKey v (plug w), saving := saving w @ [ApiKeyHandler] \<rparr>"
| "step (SaveSettled i stored) w =
     (if i < length (saving w)
      then w\<lparr> plug := snd (resumeHandler (saving w ! i) stored (plug w)),
              saving := take i (saving w) @ drop (Suc i) (saving w) \<rparr>
      else w)"
| "step (SendMessage inputValue sendOutcome historyOutcome) w =
     w\<lparr> plug := snd (handleSendMessage inputValue (plug w) sendOutcome historyOutcome) \<rparr>"

definition boot :: "settings \<Rightarrow> world" where
  "boot loaded = \<lparr> plug = onload loaded, scheduled = [], outstanding = [], reverts = 0,
     saving = [], onLayout = Some (greetingEnabled loaded) \<rparr>"

definition run :: "event list \<Rightarrow> world \<Rightarrow> world" where
  "run evs w = fold step evs w"

inductive reachable :: "world \<Rightarrow> bool" where
  reach_boot: "reachable (boot loaded)"
| reach_step: "reachable w \<Longrightarrow> reachable (step ev w)"

section \<open>What holds in every reachable state\<close>

text \<open>
  There is a chat exactly when there is a client; the client was made from a non-empty
  credential and the chat from the same one; and their addresses are below the next free
  one.  The credential in the settings is not part of it: an edit changes it at once, the
  client and the chat follow only when the write has been accepted.
\<close>

definition inv :: "plugin \<Rightarrow> bool" where
  "inv s =
     ((case ai s of
         None \<Rightarrow> companionChat s = None
       | Some c \<Rightarrow>
           clientApiKey c \<noteq> [] \<and> clientId c < heapNext s
           \<and> (case companionChat s of
                 None \<Rightarrow> False
               | Some ch \<Rightarrow> chatApiKey ch = clientApiKey c \<and> chatId ch < heapNext s)))"


section \<open>Sample inputs\<close>

text \<open>A credential \<open>k\<close>, a two-message history (\<open>user: hello\<close>, \<open>model: ok\<close>), the reply \<open>ok\<close>
  with finish reason \<open>STOP\<close>, and the plugin after that exchange.\<close>

definition ex_settings :: settings where
  "ex_settings = DEFAULT_SETTINGS\<lparr> apiKey := [107] \<rparr>"

definition ex_hello :: jsstring where
  "ex_hello = [104, 101, 108, 108, 111]"

definition ex_ok :: jsstring where
  "ex_ok = [111, 107]"

definition ex_STOP :: jsstring where
  "ex_STOP = [83, 84, 79, 80]"

definition ex_SAFETY :: jsstring where
  "ex_SAFETY = [83, 65, 70, 69, 84, 89]"

definition ex_candidate :: "jsstring \<Rightarrow> jsstring \<Rightarrow> candidate" where
  "ex_candidate txt fin =
     \<lparr> c_content = Some \<lparr> ct_role = Some [109, 111, 100, 101, 108],
                            ct_parts = Some [\<lparr> p_text = Some txt \<rparr>] \<rparr>,
       c_finishReason = Some fin \<rparr>"

definition ex_history :: "content list" where
  "ex_history =
     [\<lparr> ct_role = Some [117, 115, 101, 114], ct_parts = Some [\<lparr> p_text = Some ex_hello \<rparr>] \<rparr>,
      \<lparr> ct_role = Some [109, 111, 100, 101, 108], ct_parts = Some [\<lparr> p_text = Some ex_ok \<rparr>] \<rparr>]"

definition ex_reply :: response where
  "ex_reply = \<lparr> r_text = Some ex_ok, r_candidates = Some [ex_candidate ex_ok ex_STOP] \<rparr>"

definition ex_chatted :: world where
  "ex_chatted = run [SendMessage ex_hello (Inr ex_reply) (Inr ex_history)] (boot ex_settings)"

text \<open>A reply whose top-level text is two spaces while its first part says \<open>ok\<close>; a reply
  with no text anywhere and finish reason \<open>SAFETY\<close>; one with no candidates at all.\<close>

definition ex_blank :: response where
  "ex_blank = \<lparr> r_text = Some [32, 32], r_candidates = Some [ex_candidate ex_ok ex_STOP] \<rparr>"

definition ex_partOnly :: response where
  "ex_partOnly = \<lparr> r_text = Some [], r_candidates = Some [ex_candidate ex_ok ex_STOP] \<rparr>"

definition ex_empty :: response where
  "ex_empty = \<lparr> r_text = Some [], r_candidates = Some [ex_candidate [] ex_SAFETY] \<rparr>"

definition ex_bare :: response where
  "ex_bare = \<lparr> r_text = None, r_candidates = None \<rparr>"

text \<open>Two editor states, one Enter after the other: the text \<open>a\<close>, newline, with the cursor
  on line 1, then \<open>a\<close>, newline, \<open>b\<close>, newline, with the cursor on line 2.\<close>

definition ex_e1 :: editor where
  "ex_e1 = \<lparr> getValue = [97, 10], cursorLine = 1 \<rparr>"

definition ex_e2 :: editor where
  "ex_e2 = \<lparr> getValue = [97, 10, 98, 10], cursorLine = 2 \<rparr>"

section \<open>Facts shared by the results below\<close>

lemma onload_with_key:
  "apiKey loaded \<noteq> [] \<Longrightarrow> onload loaded =
     \<lparr> settings = loaded,
       statusBarItemEl = companionName loaded @ status_standby_initial,
       ai = Some \<lparr> clientId = 0, clientApiKey = apiKey loaded \<rparr>,
       chatHistory = [],
       companionChat = Some \<lparr> chatId = 2, chatApiKey = apiKey loaded,
          chatModel = ''gemini-2.5-flash'', chatPersonaName = companionName loaded,
          chatTemperature = 8 / 10, chatMaxOutputTokens = 2048 \<rparr>,
       lastTextLength = 0, lastCursorLine = 0, heapNext = 3 \<rparr>"
  by (simp add: onload_def initializeGeminiClient_def initializeChatClient_def updateStatusBar_def)

lemma onload_without_key:
  "apiKey loaded = [] \<Longrightarrow> onload loaded =
     \<lparr> settings = loaded,
       statusBarItemEl = companionName loaded @ status_standby_initial,
       ai = None, chatHistory = [], companionChat = None,
       lastTextLength = 0, lastCursorLine = 0, heapNext = 0 \<rparr>"
  by (simp add: onload_def initializeGeminiClient_def initializeChatClient_def updateStatusBar_def)

lemma ex_settings_fields:
  "apiKey ex_settings = [107]" "companionName ex_settings = DEFAULT_companionName"
  "greetingEnabled ex_settings = True" "randomCommentProbability ex_settings = 1 / 10"
  by (simp_all add: ex_settings_def DEFAULT_SETTINGS_def)

lemma onload_ex:
  "onload ex_settings =
     \<lparr> settings = ex_settings,
       statusBarItemEl = DEFAULT_companionName @ status_standby_initial,
       ai = Some \<lparr> clientId = 0, clientApiKey = [107] \<rparr>,
       chatHistory = [],
       companionChat = Some \<lparr> chatId = 2, chatApiKey = [107],
          chatModel = ''gemini-2.5-flash'', chatPersonaName = DEFAULT_companionName,
          chatTemperature = 8 / 10, chatMaxOutputTokens = 2048 \<rparr>,
       lastTextLength = 0, lastCursorLine = 0, heapNext = 3 \<rparr>"
  using onload_with_key [of ex_settings] by (simp add: ex_settings_fields)

lemma sendChatMessage_no_chat:
  "companionChat s = None \<Longrightarrow>
     sendChatMessage message s sendOutcome historyOutcome = (msg_chatNotConfigured, s)"
  by (simp add: sendChatMessage_def)

lemma sendChatMessage_send_throws:
  "companionChat s = Some c \<Longrightarrow>
     sendChatMessage message s (Inl e) historyOutcome = (msg_chatApology, s)"
  by (simp add: sendChatMessage_def)

lemma sendChatMessage_history_throws:
  "companionChat s = Some c \<Longrightarrow>
     sendChatMessage message s (Inr resp) (Inl e) = (msg_chatApology, s)"
  by (simp add: sendChatMessage_def)

lemma sendChatMessage_succeeds:
  "companionChat s = Some c \<Longrightarrow>
     sendChatMessage message s (Inr resp) (Inr h) =
       (trim (case r_text resp of None \<Rightarrow> [] | Some t \<Rightarrow> t), s\<lparr> chatHistory := h \<rparr>)"
  by (simp add: sendChatMessage_def)

lemma trim_ex_hello: "trim ex_hello = ex_hello"
  by (simp add: trim_def ex_hello_def isWhiteSpace_def)

lemma ex_chatted_plug: "plug ex_chatted = (onload ex_settings)\<lparr> chatHistory := ex_history \<rparr>"
proof -
  have chat: "companionChat (onload ex_settings) \<noteq> None"
    by (simp add: onload_ex)
  have "ex_hello \<noteq> []"
    by (simp add: ex_hello_def)
  with chat show ?thesis
    by (auto simp: ex_chatted_def run_def boot_def handleSendMessage_def trim_ex_hello
        sendChatMessage_succeeds)
qed

lemma ex_chatted_reachable: "reachable ex_chatted"
proof -
  have eq: "ex_chatted = step (SendMessage ex_hello (Inr ex_reply) (Inr ex_history)) (boot ex_settings)"
    by (simp add: ex_chatted_def run_def del: step.simps)
  show ?thesis
    unfolding eq by (rule reach_step [OF reach_boot])
qed

lemma ex_history_nonempty: "ex_history \<noteq> []"
  by (simp add: ex_history_def)

lemma handleEditorChange_snapshot:
  "fst (handleEditorChange e random s) =
     s\<lparr> lastTextLength := length (getValue e), lastCursorLine := cursorLine e \<rparr>"
  by (simp add: handleEditorChange_def Let_def)

lemma handleEditorChange_admits:
  "snd (handleEditorChange e random s) =
     (if isEnterPress s e \<and> ai s \<noteq> None \<and> random < randomCommentProbability (settings s)
         \<and> contextContent (getValue e) (cursorLine e) \<noteq> []
         \<and> \<not> includesStr (statusBarItemEl s) marker_comment
         \<and> \<not> includesStr (statusBarItemEl s) marker_thinking
      then Some (contextContent (getValue e) (cursorLine e)) else None)"
  by (simp add: handleEditorChange_def Let_def)

lemma standby_has_no_marker:
  "\<not> includesStr (DEFAULT_companionName @ status_standby_initial) marker_comment"
  "\<not> includesStr (DEFAULT_companionName @ status_standby_initial) marker_thinking"
  by (simp_all add: DEFAULT_companionName_def status_standby_initial_def marker_comment_def
      marker_thinking_def)

lemma ctx_e1: "contextContent (getValue ex_e1) (cursorLine ex_e1) = [97]"
  by (simp add: ex_e1_def contextContent_def slice_def trim_def isWhiteSpace_def)

lemma ctx_e2: "contextContent (getValue ex_e2) (cursorLine ex_e2) = [97, 10, 98]"
  by (simp add: ex_e2_def contextContent_def slice_def trim_def isWhiteSpace_def)

lemma apologies_distinct:
  "msg_greetApology \<noteq> msg_commentApology" "msg_chatApology \<noteq> msg_greetApology"
  "msg_chatApology \<noteq> msg_commentApology"
  by (simp_all add: msg_greetApology_def msg_commentApology_def msg_chatApology_def)

section \<open>Interactive chat: failure and missing credential\<close>

text \<open>
  Claim C1.  When the chat exists and the remote round trip throws (in \<open>sendMessage\<close>, or in
  \<open>getHistory\<close> after it), \<open>sendChatMessage\<close> returns the fixed apology string and the plugin,
  \<open>chatHistory\<close> included, is exactly what it was before the call.
\<close>

theorem sendChatMessage_failure_non_mutating:
  assumes "companionChat s = Some c"
    and "sendOutcome = Inl e \<or> historyOutcome = Inl e"
  shows "sendChatMessage message s sendOutcome historyOutcome = (msg_chatApology, s)
    \<and> chatHistory (snd (sendChatMessage message s sendOutcome historyOutcome)) = chatHistory s"
proof (cases sendOutcome)
  case (Inl a)
  with assms(1) show ?thesis
    by (simp add: sendChatMessage_send_throws)
next
  case (Inr resp)
  with assms(2) have "historyOutcome = Inl e"
    by simp
  with Inr assms(1) show ?thesis
    by (simp add: sendChatMessage_history_throws)
qed

theorem sendChatMessage_failure_non_mutating_witness:
  "companionChat (plug ex_chatted) \<noteq> None
   \<and> chatHistory (plug ex_chatted) = ex_history
   \<and> sendChatMessage ex_hello (plug ex_chatted) (Inl (Exception [])) (Inr []) =
       (msg_chatApology, plug ex_chatted)
   \<and> chatHistory (snd (sendChatMessage ex_hello (plug ex_chatted) (Inl (Exception [])) (Inr [])))
       = ex_history"
proof -
  have chat: "companionChat (plug ex_chatted) = Some \<lparr> chatId = 2, chatApiKey = [107],
      chatModel = ''gemini-2.5-flash'', chatPersonaName = DEFAULT_companionName,
      chatTemperature = 8 / 10, chatMaxOutputTokens = 2048 \<rparr>"
    by (simp add: ex_chatted_plug onload_ex)
  have hist: "chatHistory (plug ex_chatted) = ex_history"
    by (simp add: ex_chatted_plug)
  from sendChatMessage_failure_non_mutating [OF chat, of "Inl (Exception [])" "Exception []"
      "Inr []" ex_hello] chat hist
  show ?thesis by simp
qed

text \<open>
  Claim C9.  Without a chat, \<open>sendChatMessage\<close> returns the fixed advisory string (as a value:
  no path of it throws) and leaves the plugin as it was, and the chat panel shows its own fixed
  notice without calling it.  After a load with an empty credential there is no chat and the
  history is empty, so an interactive send then returns the advisory and the history stays
  empty.
\<close>

theorem sendChatMessage_not_configured:
  "(companionChat s = None \<longrightarrow>
      sendChatMessage message s sendOutcome historyOutcome = (msg_chatNotConfigured, s)
      \<and> (trim inputValue \<noteq> [] \<longrightarrow>
           handleSendMessage inputValue s sendOutcome historyOutcome =
             ([(view_needKey, view_system, False)], s)))
   \<and> (apiKey loaded = [] \<longrightarrow>
        companionChat (onload loaded) = None
        \<and> sendChatMessage message (onload loaded) sendOutcome historyOutcome =
             (msg_chatNotConfigured, onload loaded)
        \<and> chatHistory (snd (sendChatMessage message (onload loaded) sendOutcome historyOutcome))
             = [])"
  by (simp add: sendChatMessage_no_chat onload_without_key handleSendMessage_def)

theorem sendChatMessage_not_configured_witness:
  "apiKey DEFAULT_SETTINGS = []
   \<and> companionChat (onload DEFAULT_SETTINGS) = None
   \<and> trim ex_hello \<noteq> []
   \<and> sendChatMessage ex_hello (onload DEFAULT_SETTINGS) (Inr ex_reply) (Inr ex_history) =
       (msg_chatNotConfigured, onload DEFAULT_SETTINGS)
   \<and> handleSendMessage ex_hello (onload DEFAULT_SETTINGS) (Inr ex_reply) (Inr ex_history) =
       ([(view_needKey, view_system, False)], onload DEFAULT_SETTINGS)
   \<and> chatHistory (snd (sendChatMessage ex_hello (onload DEFAULT_SETTINGS) (Inr ex_reply)
        (Inr ex_history))) = []"
proof -
  have key: "apiKey DEFAULT_SETTINGS = []"
    by (simp add: DEFAULT_SETTINGS_def)
  have msg: "trim ex_hello \<noteq> []"
    by (simp add: trim_def ex_hello_def isWhiteSpace_def)
  note inst = sendChatMessage_not_configured [of "onload DEFAULT_SETTINGS" ex_hello
      "Inr ex_reply" "Inr ex_history" ex_hello DEFAULT_SETTINGS]
  from inst key have none: "companionChat (onload DEFAULT_SETTINGS) = None"
    by blast
  from inst none msg key show ?thesis
    by blast
qed

section \<open>The editor trigger: signal and probability\<close>

lemma onload_ex_gate:
  "ai (onload ex_settings) \<noteq> None"
  "randomCommentProbability (settings (onload ex_settings)) = 1 / 10"
  "\<not> includesStr (statusBarItemEl (onload ex_settings)) marker_comment"
  "\<not> includesStr (statusBarItemEl (onload ex_settings)) marker_thinking"
  "lastCursorLine (onload ex_settings) = 0" "lastTextLength (onload ex_settings) = 0"
  by (simp_all add: onload_ex standby_has_no_marker ex_settings_fields)

lemma ex_e1_fields: "length (getValue ex_e1) = 2" "cursorLine ex_e1 = 1"
  by (simp_all add: ex_e1_def)

text \<open>
  Claim C2.  The signal \<open>isEnterPress\<close> is true exactly when the cursor line and the text
  length are both strictly greater than in the stored snapshot.  Whatever the signal, the
  plugin after \<open>handleEditorChange\<close> is the plugin before with the snapshot set to the new
  length and line, and nothing else changed.  Nothing is scheduled without the signal, and
  when the rest of the gate is open (client, draw, context, status) a comment is scheduled
  exactly when the signal is true.
\<close>

theorem handleEditorChange_signal:
  "(isEnterPress s e \<longleftrightarrow>
      lastCursorLine s < cursorLine e \<and> lastTextLength s < length (getValue e))
   \<and> fst (handleEditorChange e random s) =
       s\<lparr> lastTextLength := length (getValue e), lastCursorLine := cursorLine e \<rparr>
   \<and> (snd (handleEditorChange e random s) \<noteq> None \<longrightarrow>
        lastCursorLine s < cursorLine e \<and> lastTextLength s < length (getValue e))
   \<and> (ai s \<noteq> None \<and> random < randomCommentProbability (settings s)
        \<and> contextContent (getValue e) (cursorLine e) \<noteq> []
        \<and> \<not> includesStr (statusBarItemEl s) marker_comment
        \<and> \<not> includesStr (statusBarItemEl s) marker_thinking \<longrightarrow>
        (snd (handleEditorChange e random s) \<noteq> None \<longleftrightarrow>
           lastCursorLine s < cursorLine e \<and> lastTextLength s < length (getValue e)))"
  by (simp add: handleEditorChange_snapshot handleEditorChange_admits isEnterPress_def)

text \<open>The witness takes the first Enter after a load, where the gate is open and the signal
  true, and the pair of the specification, from length 100 on line 5 to length 95 on line 6,
  where the signal is false and the snapshot is updated all the same.\<close>

theorem handleEditorChange_signal_witness:
  "ai (onload ex_settings) \<noteq> None
   \<and> (1 / 20 :: real) < randomCommentProbability (settings (onload ex_settings))
   \<and> contextContent (getValue ex_e1) (cursorLine ex_e1) \<noteq> []
   \<and> \<not> includesStr (statusBarItemEl (onload ex_settings)) marker_comment
   \<and> \<not> includesStr (statusBarItemEl (onload ex_settings)) marker_thinking
   \<and> isEnterPress (onload ex_settings) ex_e1
   \<and> snd (handleEditorChange ex_e1 (1 / 20) (onload ex_settings)) \<noteq> None
   \<and> \<not> isEnterPress ((onload ex_settings)\<lparr> lastTextLength := 100, lastCursorLine := 5 \<rparr>)
          \<lparr> getValue = replicate 95 97, cursorLine = 6 \<rparr>
   \<and> snd (handleEditorChange \<lparr> getValue = replicate 95 97, cursorLine = 6 \<rparr> (1 / 20)
          ((onload ex_settings)\<lparr> lastTextLength := 100, lastCursorLine := 5 \<rparr>)) = None
   \<and> fst (handleEditorChange \<lparr> getValue = replicate 95 97, cursorLine = 6 \<rparr> (1 / 20)
          ((onload ex_settings)\<lparr> lastTextLength := 100, lastCursorLine := 5 \<rparr>)) =
       (onload ex_settings)\<lparr> lastTextLength := 95, lastCursorLine := 6 \<rparr>"
proof -
  note first = handleEditorChange_signal [of "onload ex_settings" ex_e1 "1 / 20"]
  note second = handleEditorChange_signal
    [of "(onload ex_settings)\<lparr> lastTextLength := 100, lastCursorLine := 5 \<rparr>"
        "\<lparr> getValue = replicate 95 97, cursorLine = 6 \<rparr>" "1 / 20"]
  have gate: "ai (onload ex_settings) \<noteq> None"
    "(1 / 20 :: real) < randomCommentProbability (settings (onload ex_settings))"
    "contextContent (getValue ex_e1) (cursorLine ex_e1) \<noteq> []"
    "\<not> includesStr (statusBarItemEl (onload ex_settings)) marker_comment"
    "\<not> includesStr (statusBarItemEl (onload ex_settings)) marker_thinking"
    by (simp_all add: onload_ex_gate ctx_e1)
  have up: "lastCursorLine (onload ex_settings) < cursorLine ex_e1
      \<and> lastTextLength (onload ex_settings) < length (getValue ex_e1)"
    by (simp add: onload_ex_gate ex_e1_fields)
  from first gate up have a: "isEnterPress (onload ex_settings) ex_e1"
    "snd (handleEditorChange ex_e1 (1 / 20) (onload ex_settings)) \<noteq> None"
    by blast+
  from second have b:
    "\<not> isEnterPress ((onload ex_settings)\<lparr> lastTextLength := 100, lastCursorLine := 5 \<rparr>)
          \<lparr> getValue = replicate 95 97, cursorLine = 6 \<rparr>"
    "snd (handleEditorChange \<lparr> getValue = replicate 95 97, cursorLine = 6 \<rparr> (1 / 20)
          ((onload ex_settings)\<lparr> lastTextLength := 100, lastCursorLine := 5 \<rparr>)) = None"
    "fst (handleEditorChange \<lparr> getValue = replicate 95 97, cursorLine = 6 \<rparr> (1 / 20)
          ((onload ex_settings)\<lparr> lastTextLength := 100, lastCursorLine := 5 \<rparr>)) =
       (onload ex_settings)\<lparr> lastTextLength := 95, lastCursorLine := 6 \<rparr>"
    by simp_all
  from gate a b show ?thesis
    by simp
qed

text \<open>
  Claim C7.  A comment is scheduled only when the draw is strictly below the configured
  probability; when the rest of the gate is open (signal, client, context, status) it is
  scheduled exactly when the draw is strictly below it; and with probability 0.01 and a draw
  of exactly 0.01 nothing is ever scheduled.  The two numbers are compared as reals, which is
  the order of the finite doubles the source compares.
\<close>

theorem probability_test_is_strict:
  "(snd (handleEditorChange e random s) \<noteq> None \<longrightarrow>
      random < randomCommentProbability (settings s))
   \<and> (isEnterPress s e \<and> ai s \<noteq> None
        \<and> contextContent (getValue e) (cursorLine e) \<noteq> []
        \<and> \<not> includesStr (statusBarItemEl s) marker_comment
        \<and> \<not> includesStr (statusBarItemEl s) marker_thinking \<longrightarrow>
        (snd (handleEditorChange e random s) \<noteq> None \<longleftrightarrow>
           random < randomCommentProbability (settings s)))
   \<and> (randomCommentProbability (settings s) = 1 / 100 \<and> random = 1 / 100 \<longrightarrow>
        snd (handleEditorChange e random s) = None)"
  by (simp add: handleEditorChange_admits)

text \<open>The witness is the first Enter after a load with the probability set to 0.01: a draw of
  0.005 schedules the comment, a draw of exactly 0.01 does not.\<close>

theorem probability_test_is_strict_witness:
  "isEnterPress (changeRandomCommentProbability (Some (1 / 100)) (onload ex_settings)) ex_e1
   \<and> ai (changeRandomCommentProbability (Some (1 / 100)) (onload ex_settings)) \<noteq> None
   \<and> randomCommentProbability
        (settings (changeRandomCommentProbability (Some (1 / 100)) (onload ex_settings))) = 1 / 100
   \<and> snd (handleEditorChange ex_e1 (1 / 200)
        (changeRandomCommentProbability (Some (1 / 100)) (onload ex_settings))) \<noteq> None
   \<and> snd (handleEditorChange ex_e1 (1 / 100)
        (changeRandomCommentProbability (Some (1 / 100)) (onload ex_settings))) = None"
proof -
  define s where "s = changeRandomCommentProbability (Some (1 / 100)) (onload ex_settings)"
  have s: "s = (onload ex_settings)
      \<lparr> settings := ex_settings\<lparr> randomCommentProbability := 1 / 100 \<rparr> \<rparr>"
    by (simp add: s_def changeRandomCommentProbability_def onload_ex)
  have ctx: "contextContent (getValue ex_e1) (cursorLine ex_e1) \<noteq> []"
    by (simp add: ctx_e1)
  have gate: "isEnterPress s ex_e1" "ai s \<noteq> None"
    "\<not> includesStr (statusBarItemEl s) marker_comment"
    "\<not> includesStr (statusBarItemEl s) marker_thinking"
    "randomCommentProbability (settings s) = 1 / 100"
    by (simp_all add: s onload_ex isEnterPress_def ex_e1_fields standby_has_no_marker)
  from probability_test_is_strict [of ex_e1 "1 / 200" s] gate ctx
  have yes: "snd (handleEditorChange ex_e1 (1 / 200) s) \<noteq> None"
    by simp
  from probability_test_is_strict [of ex_e1 "1 / 100" s] gate
  have no: "snd (handleEditorChange ex_e1 (1 / 100) s) = None"
    by simp
  from gate yes no show ?thesis
    unfolding s_def by simp
qed

section \<open>One-shot completions: extraction and apologies\<close>

lemma responseText_top:
  "r_text result = Some t \<Longrightarrow> t \<noteq> [] \<Longrightarrow> responseText result = trim t"
  by (simp add: responseText_def)

lemma responseText_fallback:
  "r_text result = None \<or> r_text result = Some [] \<Longrightarrow>
     responseText result = (case firstPartText result of None \<Rightarrow> [] | Some p \<Rightarrow> trim p)"
  by (auto simp: responseText_def firstPartText_def split: option.splits list.splits)

lemma trim_Nil: "trim [] = []"
  by (simp add: trim_def)

lemma getAiResponse_result:
  "ai s = Some cl \<Longrightarrow>
     getAiResponse s type content (Inr result) =
       (if responseText result = [] then diag_prefix @ reason result @ diag_suffix
        else responseText result)"
  by (simp add: getAiResponse_def afterGenerateContent_def)

lemma getAiResponse_throws:
  "ai s = Some cl \<Longrightarrow>
     getAiResponse s type content (Inl e) =
       (if type = Greet then msg_greetApology else msg_commentApology)"
  by (simp add: getAiResponse_def afterGenerateContent_def)

lemma ex_blank_fields:
  "r_text ex_blank = Some [32, 32]" "firstPartText ex_blank = Some ex_ok"
  "reason ex_blank = ex_STOP" "trim [32, 32] = []"
  by (simp_all add: ex_blank_def ex_candidate_def firstPartText_def reason_def ex_STOP_def
      trim_def isWhiteSpace_def)

lemma ex_partOnly_fields:
  "r_text ex_partOnly = Some []" "firstPartText ex_partOnly = Some ex_ok" "trim ex_ok = ex_ok"
  "ex_ok \<noteq> []"
  by (simp_all add: ex_partOnly_def ex_candidate_def firstPartText_def ex_ok_def trim_def
      isWhiteSpace_def)

lemma ex_empty_fields:
  "r_text ex_empty = Some []" "firstPartText ex_empty = Some []"
  "r_candidates ex_empty = Some [ex_candidate [] ex_SAFETY]"
  "c_finishReason (ex_candidate [] ex_SAFETY) = Some ex_SAFETY" "ex_SAFETY \<noteq> []"
  by (simp_all add: ex_empty_def ex_candidate_def firstPartText_def ex_SAFETY_def)

lemma ex_bare_fields:
  "r_text ex_bare = None" "firstPartText ex_bare = None" "r_candidates ex_bare = None"
  by (simp_all add: ex_bare_def firstPartText_def)

lemma onload_ex_ai: "ai (onload ex_settings) = Some \<lparr> clientId = 0, clientApiKey = [107] \<rparr>"
  by (simp add: onload_ex)

text \<open>
  Claim C4, as stated, fails.  A reply whose top-level text is present and non-empty but
  blank (two spaces), and whose first part says \<open>ok\<close>, gives the diagnostic string: neither
  the top-level text, verbatim or trimmed, nor the text of the first part, although not both
  are empty.
\<close>

theorem getAiResponse_blank_top_level_counterexample:
  "r_text ex_blank = Some [32, 32]
   \<and> firstPartText ex_blank = Some ex_ok
   \<and> getAiResponse (onload ex_settings) Comment [] (Inr ex_blank) =
       diag_prefix @ ex_STOP @ diag_suffix
   \<and> getAiResponse (onload ex_settings) Comment [] (Inr ex_blank) \<noteq> [32, 32]
   \<and> getAiResponse (onload ex_settings) Comment [] (Inr ex_blank) \<noteq> trim [32, 32]
   \<and> getAiResponse (onload ex_settings) Comment [] (Inr ex_blank) \<noteq> ex_ok"
proof -
  have "responseText ex_blank = []"
    using responseText_top [of ex_blank "[32, 32]"] by (simp add: ex_blank_fields)
  then have "getAiResponse (onload ex_settings) Comment [] (Inr ex_blank) =
      diag_prefix @ ex_STOP @ diag_suffix"
    by (simp add: getAiResponse_result [OF onload_ex_ai] ex_blank_fields)
  then show ?thesis
    by (simp add: ex_blank_fields diag_prefix_def ex_ok_def)
qed

text \<open>
  Claim C4, amended.  With a client and a successful call, \<open>getAiResponse\<close> takes the
  top-level text when it is present and non-empty, otherwise the text of the first
  candidate's first part (the empty string when there is no such part), and trims it.  It
  returns the trimmed text when that is non-empty; when it is empty (nothing there, or only
  white space, also in a top-level text, after which the first part is not consulted) it
  returns the diagnostic string, which is a fixed prefix, the reason and a fixed suffix.  The
  reason is the first candidate's finish reason, or \<open>N/A\<close> when there is no candidate or no
  non-empty finish reason.  Every case returns a string.
\<close>

theorem getAiResponse_extraction:
  assumes "ai s = Some cl"
  shows "(r_text result = Some t \<and> t \<noteq> [] \<longrightarrow>
            getAiResponse s type content (Inr result) =
              (if trim t \<noteq> [] then trim t else diag_prefix @ reason result @ diag_suffix))
    \<and> ((r_text result = None \<or> r_text result = Some []) \<and> firstPartText result = Some p \<longrightarrow>
            getAiResponse s type content (Inr result) =
              (if trim p \<noteq> [] then trim p else diag_prefix @ reason result @ diag_suffix))
    \<and> ((r_text result = None \<or> r_text result = Some []) \<and> firstPartText result = None \<longrightarrow>
            getAiResponse s type content (Inr result) = diag_prefix @ reason result @ diag_suffix)
    \<and> (r_candidates result = Some (c # cs) \<and> c_finishReason c = Some f \<and> f \<noteq> [] \<longrightarrow>
            reason result = f)
    \<and> (r_candidates result = None \<or> r_candidates result = Some []
          \<or> (r_candidates result = Some (c # cs)
               \<and> (c_finishReason c = None \<or> c_finishReason c = Some [])) \<longrightarrow>
            reason result = str_NA)"
proof (intro conjI impI)
  assume "r_text result = Some t \<and> t \<noteq> []"
  then show "getAiResponse s type content (Inr result) =
      (if trim t \<noteq> [] then trim t else diag_prefix @ reason result @ diag_suffix)"
    by (simp add: getAiResponse_result [OF assms] responseText_top)
next
  assume "(r_text result = None \<or> r_text result = Some []) \<and> firstPartText result = Some p"
  then show "getAiResponse s type content (Inr result) =
      (if trim p \<noteq> [] then trim p else diag_prefix @ reason result @ diag_suffix)"
    by (simp add: getAiResponse_result [OF assms] responseText_fallback)
next
  assume "(r_text result = None \<or> r_text result = Some []) \<and> firstPartText result = None"
  then show "getAiResponse s type content (Inr result) = diag_prefix @ reason result @ diag_suffix"
    by (simp add: getAiResponse_result [OF assms] responseText_fallback)
next
  assume "r_candidates result = Some (c # cs) \<and> c_finishReason c = Some f \<and> f \<noteq> []"
  then show "reason result = f"
    by (simp add: reason_def)
next
  assume "r_candidates result = None \<or> r_candidates result = Some []
      \<or> (r_candidates result = Some (c # cs)
           \<and> (c_finishReason c = None \<or> c_finishReason c = Some []))"
  then show "reason result = str_NA"
    by (auto simp: reason_def)
qed

text \<open>The witness runs the two replies of the specification: an empty top-level text with
  \<open>ok\<close> in the first part gives \<open>ok\<close>; nothing anywhere with finish reason \<open>SAFETY\<close> gives the
  diagnostic around \<open>SAFETY\<close>; and a reply with no candidates gives the one around \<open>N/A\<close>.\<close>

theorem getAiResponse_extraction_witness:
  "ai (onload ex_settings) \<noteq> None
   \<and> getAiResponse (onload ex_settings) Comment [] (Inr ex_partOnly) = ex_ok
   \<and> getAiResponse (onload ex_settings) Comment [] (Inr ex_empty) =
       diag_prefix @ ex_SAFETY @ diag_suffix
   \<and> getAiResponse (onload ex_settings) Greet [] (Inr ex_bare) =
       diag_prefix @ str_NA @ diag_suffix
   \<and> getAiResponse (onload ex_settings) Comment [] (Inr ex_blank) =
       diag_prefix @ ex_STOP @ diag_suffix"
proof -
  note ext = getAiResponse_extraction [OF onload_ex_ai]
  have a: "getAiResponse (onload ex_settings) Comment [] (Inr ex_partOnly) = ex_ok"
    using ext [of ex_partOnly _ Comment "[]" ex_ok] by (simp add: ex_partOnly_fields)
  have "reason ex_empty = ex_SAFETY"
    using ext [of ex_empty _ _ _ _ "ex_candidate [] ex_SAFETY" "[]" ex_SAFETY]
    by (simp add: ex_empty_fields)
  then have b: "getAiResponse (onload ex_settings) Comment [] (Inr ex_empty) =
      diag_prefix @ ex_SAFETY @ diag_suffix"
    using ext [of ex_empty _ Comment "[]" "[]"] by (simp add: ex_empty_fields trim_Nil)
  have "reason ex_bare = str_NA"
    using ext [of ex_bare] by (simp add: ex_bare_fields)
  then have c: "getAiResponse (onload ex_settings) Greet [] (Inr ex_bare) =
      diag_prefix @ str_NA @ diag_suffix"
    using ext [of ex_bare _ Greet "[]"] by (simp add: ex_bare_fields)
  have d: "getAiResponse (onload ex_settings) Comment [] (Inr ex_blank) =
      diag_prefix @ ex_STOP @ diag_suffix"
    using ext [of ex_blank "[32, 32]" Comment "[]"] by (simp add: ex_blank_fields)
  from a b c d show ?thesis
    by (simp add: onload_ex_ai)
qed

text \<open>
  Claim C6, as stated, fails: the apology of the interactive chat is neither the greeting's
  nor the comment's, so there are three fixed strings, not two.
\<close>

theorem chat_apology_is_a_third_string_counterexample:
  "fst (sendChatMessage ex_hello (plug ex_chatted) (Inl (Exception [])) (Inr [])) = msg_chatApology
   \<and> fst (sendChatMessage ex_hello (plug ex_chatted) (Inl (Exception [])) (Inr []))
       \<noteq> msg_greetApology
   \<and> fst (sendChatMessage ex_hello (plug ex_chatted) (Inl (Exception [])) (Inr []))
       \<noteq> msg_commentApology
   \<and> getAiResponse (plug ex_chatted) Comment [] (Inl (Exception [])) = msg_commentApology"
proof -
  have chat: "companionChat (plug ex_chatted) = Some \<lparr> chatId = 2, chatApiKey = [107],
      chatModel = ''gemini-2.5-flash'', chatPersonaName = DEFAULT_companionName,
      chatTemperature = 8 / 10, chatMaxOutputTokens = 2048 \<rparr>"
    by (simp add: ex_chatted_plug onload_ex)
  have client: "ai (plug ex_chatted) = Some \<lparr> clientId = 0, clientApiKey = [107] \<rparr>"
    by (simp add: ex_chatted_plug onload_ex)
  show ?thesis
    by (simp add: sendChatMessage_send_throws [OF chat] getAiResponse_throws [OF client]
        apologies_distinct)
qed

text \<open>
  Claim C6, amended.  An exception of a remote call never leaves the operation that made
  the call: a greeting returns the greeting's apology, a comment the comment's, and the
  interactive chat, whether \<open>sendMessage\<close> or \<open>getHistory\<close> threw, a third one of its own.
  The three strings are fixed and pairwise different.
\<close>

theorem transport_errors_become_apologies:
  "(ai s = Some cl \<longrightarrow>
      getAiResponse s Greet content (Inl e) = msg_greetApology
      \<and> getAiResponse s Comment content (Inl e) = msg_commentApology)
   \<and> (companionChat s = Some ch \<longrightarrow>
        fst (sendChatMessage message s (Inl e) historyOutcome) = msg_chatApology
        \<and> fst (sendChatMessage message s (Inr resp) (Inl e)) = msg_chatApology)
   \<and> afterGenerateContent Greet (Inl e) = msg_greetApology
   \<and> afterGenerateContent Comment (Inl e) = msg_commentApology
   \<and> distinct [msg_greetApology, msg_commentApology, msg_chatApology]"
  using apologies_distinct
  by (auto simp: getAiResponse_throws sendChatMessage_send_throws sendChatMessage_history_throws
      afterGenerateContent_def)

theorem transport_errors_become_apologies_witness:
  "ai (plug ex_chatted) \<noteq> None \<and> companionChat (plug ex_chatted) \<noteq> None
   \<and> getAiResponse (plug ex_chatted) Greet [] (Inl (Exception ex_hello)) = msg_greetApology
   \<and> getAiResponse (plug ex_chatted) Comment ex_hello (Inl (Exception ex_hello))
       = msg_commentApology
   \<and> fst (sendChatMessage ex_hello (plug ex_chatted) (Inl (Exception ex_hello)) (Inr []))
       = msg_chatApology
   \<and> fst (sendChatMessage ex_hello (plug ex_chatted) (Inr ex_reply) (Inl (Exception ex_hello)))
       = msg_chatApology"
proof -
  have chat: "companionChat (plug ex_chatted) = Some \<lparr> chatId = 2, chatApiKey = [107],
      chatModel = ''gemini-2.5-flash'', chatPersonaName = DEFAULT_companionName,
      chatTemperature = 8 / 10, chatMaxOutputTokens = 2048 \<rparr>"
    by (simp add: ex_chatted_plug onload_ex)
  have client: "ai (plug ex_chatted) = Some \<lparr> clientId = 0, clientApiKey = [107] \<rparr>"
    by (simp add: ex_chatted_plug onload_ex)
  from transport_errors_become_apologies [of "plug ex_chatted" _ "[]" "Exception ex_hello" _
      ex_hello "Inr []" ex_reply]
    transport_errors_become_apologies [of "plug ex_chatted" _ ex_hello "Exception ex_hello"]
    chat client
  show ?thesis by simp
qed

section \<open>The context of a comment\<close>






lemma slice_length: "length (slice xs a b) \<le> b - a"
  by (simp add: slice_def)



section \<open>Credential, client and session\<close>

lemma initializeGeminiClient_with_key:
  "apiKey (settings s) \<noteq> [] \<Longrightarrow> initializeGeminiClient s =
     s\<lparr> ai := Some \<lparr> clientId = heapNext s, clientApiKey = apiKey (settings s) \<rparr>,
       chatHistory := [],
       companionChat := Some \<lparr> chatId = heapNext s + 1, chatApiKey = apiKey (settings s),
          chatModel = ''gemini-2.5-flash'', chatPersonaName = companionName (settings s),
          chatTemperature = 8 / 10, chatMaxOutputTokens = 2048 \<rparr>,
       heapNext := heapNext s + 2 \<rparr>"
  by (simp add: initializeGeminiClient_def initializeChatClient_def)

lemma initializeGeminiClient_without_key:
  "apiKey (settings s) = [] \<Longrightarrow>
     initializeGeminiClient s = s\<lparr> ai := None, companionChat := None \<rparr>"
  by (simp add: initializeGeminiClient_def initializeChatClient_def)

lemma initializeGeminiClient_settings: "settings (initializeGeminiClient s) = settings s"
  by (cases "apiKey (settings s) = []")
    (simp_all add: initializeGeminiClient_with_key initializeGeminiClient_without_key)

lemma saveSettings_accepted: "saveSettings (Inr u) s = (Inr (), initializeGeminiClient s)"
  by (simp add: saveSettings_def)

lemma saveSettings_rejected: "saveSettings (Inl e) s = (Inl e, s)"
  by (simp add: saveSettings_def)

lemma resumeHandler_rejected: "resumeHandler h (Inl e) s = (Inl e, s)"
  by (simp add: resumeHandler_def saveSettings_rejected)

lemma resumeHandler_accepted:
  "snd (resumeHandler h (Inr u) s) =
     (if h = NameHandler
      then updateStatusBar (companionName (settings s) @ status_standby_initial)
             (initializeGeminiClient s)
      else initializeGeminiClient s)"
  by (simp add: resumeHandler_def saveSettings_accepted initializeGeminiClient_settings)

lemma resumeHandler_accepted_fields:
  "ai (snd (resumeHandler h (Inr u) s)) = ai (initializeGeminiClient s)"
  "companionChat (snd (resumeHandler h (Inr u) s)) = companionChat (initializeGeminiClient s)"
  "chatHistory (snd (resumeHandler h (Inr u) s)) = chatHistory (initializeGeminiClient s)"
  "heapNext (snd (resumeHandler h (Inr u) s)) = heapNext (initializeGeminiClient s)"
  "settings (snd (resumeHandler h (Inr u) s)) = settings s"
  by (simp_all add: resumeHandler_accepted updateStatusBar_def initializeGeminiClient_settings)

lemma inv_frame:
  "ai s' = ai s \<Longrightarrow> companionChat s' = companionChat s \<Longrightarrow> heapNext s' = heapNext s \<Longrightarrow>
     inv s' = inv s"
  by (simp add: inv_def cong: option.case_cong)

lemma inv_initializeGeminiClient: "inv (initializeGeminiClient s)"
  by (cases "apiKey (settings s) = []")
    (simp_all add: initializeGeminiClient_with_key initializeGeminiClient_without_key inv_def)


lemma inv_onload: "inv (onload loaded)"
  by (cases "apiKey loaded = []") (simp_all add: onload_with_key onload_without_key inv_def)

lemma inv_updateStatusBar: "inv (updateStatusBar txt s) = inv s"
  by (rule inv_frame) (simp_all add: updateStatusBar_def)

lemma inv_handleEditorChange: "inv (fst (handleEditorChange e random s)) = inv s"
  by (rule inv_frame) (simp_all add: handleEditorChange_snapshot)

lemma inv_layoutReady: "inv (layoutReady registered outcome activeEditor s) = inv s"
  by (rule inv_frame)
    (simp_all add: layoutReady_def greetUser_def updateStatusBar_def Let_def split: option.splits)

lemma inv_handleSendMessage:
  "inv (snd (handleSendMessage inputValue s sendOutcome historyOutcome)) = inv s"
  by (rule inv_frame)
    (auto simp: handleSendMessage_def sendChatMessage_def Let_def
      split: option.splits sum.splits)

lemma inv_resumeHandler: "inv s \<Longrightarrow> inv (snd (resumeHandler h stored s))"
proof (cases stored)
  case (Inl e)
  assume "inv s"
  with Inl show ?thesis
    by (simp add: resumeHandler_rejected)
next
  case (Inr u)
  have "inv (snd (resumeHandler h (Inr u) s)) = inv (initializeGeminiClient s)"
    by (rule inv_frame) (simp_all add: resumeHandler_accepted_fields)
  with Inr show ?thesis
    by (simp add: inv_initializeGeminiClient)
qed

lemma inv_step: "inv (plug w) \<Longrightarrow> inv (plug (step ev w))"
proof (cases ev)
  case (EditorChange e random)
  assume "inv (plug w)"
  with EditorChange inv_handleEditorChange [of e random "plug w"] show ?thesis
    by (cases "handleEditorChange e random (plug w)") (auto split: option.splits)
next
  case CommentTimer
  assume "inv (plug w)"
  with CommentTimer show ?thesis
    by (auto simp: inv_updateStatusBar Let_def split: list.splits option.splits)
next
  case (CommentResponse i outcome)
  assume "inv (plug w)"
  with CommentResponse show ?thesis
    by (simp add: inv_updateStatusBar)
next
  case RevertTimer
  assume "inv (plug w)"
  with RevertTimer show ?thesis
    by (simp add: inv_updateStatusBar)
next
  case (LayoutReady outcome activeEditor)
  assume "inv (plug w)"
  with LayoutReady show ?thesis
    by (simp add: inv_layoutReady split: option.splits)
next
  case (ChangeCompanionName v)
  assume "inv (plug w)"
  moreover have "inv (changeCompanionName v (plug w)) = inv (plug w)"
    by (rule inv_frame) (simp_all add: changeCompanionName_def)
  ultimately show ?thesis
    using ChangeCompanionName by simp
next
  case (ChangeGreetingEnabled v)
  assume "inv (plug w)"
  moreover have "inv (changeGreetingEnabled v (plug w)) = inv (plug w)"
    by (rule inv_frame) (simp_all add: changeGreetingEnabled_def)
  ultimately show ?thesis
    using ChangeGreetingEnabled by simp
next
  case (ChangeProbability parsed)
  assume "inv (plug w)"
  moreover have "inv (changeRandomCommentProbability parsed (plug w)) = inv (plug w)"
    by (rule inv_frame) (simp_all add: changeRandomCommentProbability_def Let_def)
  ultimately show ?thesis
    using ChangeProbability by simp
next
  case (ChangeApiKey v)
  assume "inv (plug w)"
  moreover have "inv (changeApiKey v (plug w)) = inv (plug w)"
    by (rule inv_frame) (simp_all add: changeApiKey_def)
  ultimately show ?thesis
    using ChangeApiKey by simp
next
  case (SaveSettled i stored)
  assume "inv (plug w)"
  with SaveSettled show ?thesis
    by (simp add: inv_resumeHandler)
next
  case (SendMessage inputValue sendOutcome historyOutcome)
  assume "inv (plug w)"
  with SendMessage show ?thesis
    by (simp add: inv_handleSendMessage)
qed

lemma reachable_inv: "reachable w \<Longrightarrow> inv (plug w)"
proof (induction rule: reachable.induct)
  case (reach_boot loaded)
  show ?case
    by (simp add: boot_def inv_onload)
next
  case (reach_step w ev)
  then show ?case
    by (simp add: inv_step)
qed



lemma inv_chat_below: "inv s \<Longrightarrow> companionChat s = Some ch \<Longrightarrow> chatId ch < heapNext s"
  by (auto simp: inv_def split: option.splits)

lemma inv_client_below: "inv s \<Longrightarrow> ai s = Some cl \<Longrightarrow> clientId cl < heapNext s"
  by (auto simp: inv_def split: option.splits)


lemma settled_accepted_fields:
  assumes "i < length (saving w)"
  shows "ai (plug (step (SaveSettled i (Inr u)) w)) = ai (initializeGeminiClient (plug w))"
    and "companionChat (plug (step (SaveSettled i (Inr u)) w)) =
      companionChat (initializeGeminiClient (plug w))"
    and "chatHistory (plug (step (SaveSettled i (Inr u)) w)) =
      chatHistory (initializeGeminiClient (plug w))"
    and "settings (plug (step (SaveSettled i (Inr u)) w)) = settings (plug w)"
  using assms by (simp_all add: resumeHandler_accepted_fields)

lemma settled_rejected: "plug (step (SaveSettled i (Inl e)) w) = plug w"
  by (simp add: resumeHandler_rejected)


lemma ex_chatted_fields:
  "chatHistory (plug ex_chatted) = ex_history"
  "apiKey (settings (plug ex_chatted)) = [107]"
  "greetingEnabled (settings (plug ex_chatted)) = True"
  "heapNext (plug ex_chatted) = 3"
  "companionChat (plug ex_chatted) = Some \<lparr> chatId = 2, chatApiKey = [107],
      chatModel = ''gemini-2.5-flash'', chatPersonaName = DEFAULT_companionName,
      chatTemperature = 8 / 10, chatMaxOutputTokens = 2048 \<rparr>"
  "ai (plug ex_chatted) = Some \<lparr> clientId = 0, clientApiKey = [107] \<rparr>"
  by (simp_all add: ex_chatted_plug onload_ex ex_settings_fields)

lemma ex_chatted_saving: "saving ex_chatted = []"
  by (simp add: ex_chatted_def run_def boot_def)




text \<open>
  Claim C10, as stated, fails when the store rejects the write.  After the sample exchange
  the greeting is switched off and the write is rejected: \<open>saveSettings\<close> throws without
  reinitialising anything, the handler has nothing left to run, the flag is changed in the
  settings, and the client, the session and the two messages are those from before.
\<close>

theorem rejected_write_wipes_nothing_counterexample:
  "reachable (step (SaveSettled 0 (Inl (Exception [])))
      (step (ChangeGreetingEnabled False) ex_chatted))
   \<and> saving (step (SaveSettled 0 (Inl (Exception [])))
        (step (ChangeGreetingEnabled False) ex_chatted)) = []
   \<and> greetingEnabled (settings (plug (step (SaveSettled 0 (Inl (Exception [])))
        (step (ChangeGreetingEnabled False) ex_chatted)))) = False
   \<and> greetingEnabled (settings (plug ex_chatted)) = True
   \<and> apiKey (settings (plug (step (SaveSettled 0 (Inl (Exception [])))
        (step (ChangeGreetingEnabled False) ex_chatted)))) \<noteq> []
   \<and> chatHistory (plug (step (SaveSettled 0 (Inl (Exception [])))
        (step (ChangeGreetingEnabled False) ex_chatted))) = ex_history
   \<and> ex_history \<noteq> []
   \<and> companionChat (plug (step (SaveSettled 0 (Inl (Exception [])))
        (step (ChangeGreetingEnabled False) ex_chatted))) = companionChat (plug ex_chatted)
   \<and> ai (plug (step (SaveSettled 0 (Inl (Exception [])))
        (step (ChangeGreetingEnabled False) ex_chatted))) = ai (plug ex_chatted)
   \<and> saveSettings (Inl (Exception [])) (plug (step (ChangeGreetingEnabled False) ex_chatted))
       = (Inl (Exception []), plug (step (ChangeGreetingEnabled False) ex_chatted))"
proof -
  define w1 where "w1 = step (ChangeGreetingEnabled False) ex_chatted"
  have r2: "reachable (step (SaveSettled 0 (Inl (Exception []))) w1)"
    unfolding w1_def by (rule reach_step [OF reach_step [OF ex_chatted_reachable]])
  have plug1: "plug w1 = changeGreetingEnabled False (plug ex_chatted)"
    and saving1: "saving w1 = [GreetingHandler]"
    by (simp_all add: w1_def ex_chatted_saving)
  have rejected: "plug (step (SaveSettled 0 (Inl (Exception []))) w1) = plug w1"
    by (rule settled_rejected)
  have idle: "saving (step (SaveSettled 0 (Inl (Exception []))) w1) = []"
    by (simp add: saving1)
  have fields: "greetingEnabled (settings (plug w1)) = False"
    "apiKey (settings (plug w1)) \<noteq> []" "chatHistory (plug w1) = ex_history"
    "companionChat (plug w1) = companionChat (plug ex_chatted)" "ai (plug w1) = ai (plug ex_chatted)"
    by (simp_all add: plug1 changeGreetingEnabled_def ex_chatted_fields)
  from r2 rejected idle fields ex_history_nonempty show ?thesis
    unfolding w1_def by (simp add: saveSettings_rejected ex_chatted_fields)
qed

text \<open>
  Claim C10, amended.  Every call to \<open>saveSettings\<close>, whichever setting was edited, first
  awaits the write to the store.  When the store accepts it, \<open>saveSettings\<close> makes the client
  anew: with a credential it allocates a new client and a new chat (at the next two
  addresses, with the companion name of the settings) and empties \<open>chatHistory\<close>; without one
  it leaves neither client nor chat.  When the store rejects it, \<open>saveSettings\<close> throws and the
  plugin is as it was.  So an edit of the companion name, the greeting flag or the
  probability only leaves a handler waiting and changes nothing of the client, the session,
  the history or the credential; and in a reachable state with a credential, the acceptance
  of any pending write empties \<open>chatHistory\<close> and replaces the client and the session by
  different objects, while a rejection changes nothing.
\<close>

theorem saveSettings_resets_session:
  "(apiKey (settings s) \<noteq> [] \<longrightarrow>
      fst (saveSettings (Inr ()) s) = Inr ()
      \<and> chatHistory (snd (saveSettings (Inr ()) s)) = []
      \<and> ai (snd (saveSettings (Inr ()) s))
          = Some \<lparr> clientId = heapNext s, clientApiKey = apiKey (settings s) \<rparr>
      \<and> (\<exists>ch. companionChat (snd (saveSettings (Inr ()) s)) = Some ch
            \<and> chatId ch = heapNext s + 1
            \<and> chatApiKey ch = apiKey (settings s)
            \<and> chatPersonaName ch = companionName (settings s)))
   \<and> (apiKey (settings s) = [] \<longrightarrow>
        fst (saveSettings (Inr ()) s) = Inr ()
        \<and> ai (snd (saveSettings (Inr ()) s)) = None
        \<and> companionChat (snd (saveSettings (Inr ()) s)) = None)
   \<and> saveSettings (Inl e) s = (Inl e, s)
   \<and> (ev \<in> {ChangeCompanionName n, ChangeGreetingEnabled g, ChangeProbability pr} \<longrightarrow>
        length (saving (step ev w)) = length (saving w) + 1
        \<and> apiKey (settings (plug (step ev w))) = apiKey (settings (plug w))
        \<and> chatHistory (plug (step ev w)) = chatHistory (plug w)
        \<and> companionChat (plug (step ev w)) = companionChat (plug w)
        \<and> ai (plug (step ev w)) = ai (plug w))
   \<and> (reachable w \<and> i < length (saving w) \<and> apiKey (settings (plug w)) \<noteq> [] \<longrightarrow>
        chatHistory (plug (step (SaveSettled i (Inr ())) w)) = []
        \<and> companionChat (plug (step (SaveSettled i (Inr ())) w)) \<noteq> None
        \<and> companionChat (plug (step (SaveSettled i (Inr ())) w)) \<noteq> companionChat (plug w)
        \<and> ai (plug (step (SaveSettled i (Inr ())) w)) \<noteq> None
        \<and> ai (plug (step (SaveSettled i (Inr ())) w)) \<noteq> ai (plug w))
   \<and> plug (step (SaveSettled i (Inl e)) w) = plug w"
proof -
  have a: "apiKey (settings s) \<noteq> [] \<longrightarrow>
      fst (saveSettings (Inr ()) s) = Inr ()
      \<and> chatHistory (snd (saveSettings (Inr ()) s)) = []
      \<and> ai (snd (saveSettings (Inr ()) s))
          = Some \<lparr> clientId = heapNext s, clientApiKey = apiKey (settings s) \<rparr>
      \<and> (\<exists>ch. companionChat (snd (saveSettings (Inr ()) s)) = Some ch
            \<and> chatId ch = heapNext s + 1
            \<and> chatApiKey ch = apiKey (settings s)
            \<and> chatPersonaName ch = companionName (settings s))"
    by (simp add: saveSettings_accepted initializeGeminiClient_with_key)
  have b: "apiKey (settings s) = [] \<longrightarrow>
      fst (saveSettings (Inr ()) s) = Inr ()
      \<and> ai (snd (saveSettings (Inr ()) s)) = None
      \<and> companionChat (snd (saveSettings (Inr ()) s)) = None"
    by (simp add: saveSettings_accepted initializeGeminiClient_without_key)
  have c: "saveSettings (Inl e) s = (Inl e, s)"
    by (rule saveSettings_rejected)
  have d: "ev \<in> {ChangeCompanionName n, ChangeGreetingEnabled g, ChangeProbability pr} \<longrightarrow>
      length (saving (step ev w)) = length (saving w) + 1
      \<and> apiKey (settings (plug (step ev w))) = apiKey (settings (plug w))
      \<and> chatHistory (plug (step ev w)) = chatHistory (plug w)
      \<and> companionChat (plug (step ev w)) = companionChat (plug w)
      \<and> ai (plug (step ev w)) = ai (plug w)"
    by (auto simp: changeCompanionName_def changeGreetingEnabled_def
        changeRandomCommentProbability_def Let_def)
  have f: "reachable w \<and> i < length (saving w) \<and> apiKey (settings (plug w)) \<noteq> [] \<longrightarrow>
      chatHistory (plug (step (SaveSettled i (Inr ())) w)) = []
      \<and> companionChat (plug (step (SaveSettled i (Inr ())) w)) \<noteq> None
      \<and> companionChat (plug (step (SaveSettled i (Inr ())) w)) \<noteq> companionChat (plug w)
      \<and> ai (plug (step (SaveSettled i (Inr ())) w)) \<noteq> None
      \<and> ai (plug (step (SaveSettled i (Inr ())) w)) \<noteq> ai (plug w)"
  proof
    assume asm: "reachable w \<and> i < length (saving w) \<and> apiKey (settings (plug w)) \<noteq> []"
    then have inv: "inv (plug w)" and valid: "i < length (saving w)"
      and key: "apiKey (settings (plug w)) \<noteq> []"
      by (simp_all add: reachable_inv)
    have chat: "Some ch \<noteq> companionChat (plug w)" if "chatId ch = heapNext (plug w) + 1" for ch
      using inv_chat_below [OF inv, of ch] that by auto
    have client: "Some cl \<noteq> ai (plug w)" if "clientId cl = heapNext (plug w)" for cl
      using inv_client_below [OF inv, of cl] that by auto
    show "chatHistory (plug (step (SaveSettled i (Inr ())) w)) = []
      \<and> companionChat (plug (step (SaveSettled i (Inr ())) w)) \<noteq> None
      \<and> companionChat (plug (step (SaveSettled i (Inr ())) w)) \<noteq> companionChat (plug w)
      \<and> ai (plug (step (SaveSettled i (Inr ())) w)) \<noteq> None
      \<and> ai (plug (step (SaveSettled i (Inr ())) w)) \<noteq> ai (plug w)"
      unfolding settled_accepted_fields [OF valid] initializeGeminiClient_with_key [OF key]
      using chat client by simp
  qed
  have h: "plug (step (SaveSettled i (Inl e)) w) = plug w"
    by (rule settled_rejected)
  from a b c d f h show ?thesis
    by blast
qed

text \<open>The witness: after the sample exchange the greeting is switched off.  The edit leaves
  one handler waiting and the two messages in place; when its write is accepted the history
  is empty and the session another one; had it been rejected, nothing would have changed.\<close>

theorem saveSettings_resets_session_witness:
  "reachable (step (ChangeGreetingEnabled False) ex_chatted)
   \<and> (0::nat) < length (saving (step (ChangeGreetingEnabled False) ex_chatted))
   \<and> apiKey (settings (plug (step (ChangeGreetingEnabled False) ex_chatted))) \<noteq> []
   \<and> chatHistory (plug (step (ChangeGreetingEnabled False) ex_chatted)) = ex_history
   \<and> ex_history \<noteq> []
   \<and> chatHistory (plug (step (SaveSettled 0 (Inr ()))
        (step (ChangeGreetingEnabled False) ex_chatted))) = []
   \<and> companionChat (plug (step (SaveSettled 0 (Inr ()))
        (step (ChangeGreetingEnabled False) ex_chatted))) \<noteq> companionChat (plug ex_chatted)
   \<and> chatHistory (plug (step (SaveSettled 0 (Inl (Exception [])))
        (step (ChangeGreetingEnabled False) ex_chatted))) = ex_history
   \<and> chatHistory (snd (saveSettings (Inr ()) (plug ex_chatted))) = []"
proof -
  define w1 where "w1 = step (ChangeGreetingEnabled False) ex_chatted"
  have r1: "reachable w1"
    unfolding w1_def by (rule reach_step [OF ex_chatted_reachable])
  note edit = saveSettings_resets_session
    [of "plug ex_chatted" _ "ChangeGreetingEnabled False" _ False _ ex_chatted]
  note settle = saveSettings_resets_session [of _ "Exception []" _ _ _ _ w1 0]
  have member: "ChangeGreetingEnabled False
      \<in> {ChangeCompanionName n, ChangeGreetingEnabled False, ChangeProbability pr}" for n pr
    by simp
  from edit member have one: "length (saving w1) = length (saving ex_chatted) + 1"
    and key: "apiKey (settings (plug w1)) = apiKey (settings (plug ex_chatted))"
    and hist: "chatHistory (plug w1) = chatHistory (plug ex_chatted)"
    and same: "companionChat (plug w1) = companionChat (plug ex_chatted)"
    unfolding w1_def by blast+
  from one have valid: "0 < length (saving w1)"
    by simp
  from key have nonempty: "apiKey (settings (plug w1)) \<noteq> []"
    by (simp add: ex_chatted_fields)
  from settle r1 valid nonempty
  have wiped: "chatHistory (plug (step (SaveSettled 0 (Inr ())) w1)) = []"
    and replaced: "companionChat (plug (step (SaveSettled 0 (Inr ())) w1)) \<noteq> companionChat (plug w1)"
    by blast+
  from settle have kept: "plug (step (SaveSettled 0 (Inl (Exception []))) w1) = plug w1"
    by blast
  have "apiKey (settings (plug ex_chatted)) \<noteq> []"
    by (simp add: ex_chatted_fields)
  with edit have direct: "chatHistory (snd (saveSettings (Inr ()) (plug ex_chatted))) = []"
    by blast
  from r1 valid nonempty hist same wiped replaced kept direct show ?thesis
    unfolding w1_def by (simp add: ex_chatted_fields ex_history_nonempty)
qed

section \<open>Ambient comments in flight\<close>

lemma includesStr_iff: "includesStr s sub \<longleftrightarrow> (\<exists>ps ss. s = ps @ sub @ ss)"
proof (induction s)
  case Nil
  show ?case by auto
next
  case (Cons c cs)
  show ?case
  proof
    assume "includesStr (c # cs) sub"
    then consider "prefix sub (c # cs)" | "includesStr cs sub"
      by auto
    then show "\<exists>ps ss. c # cs = ps @ sub @ ss"
    proof cases
      case 1
      then obtain ss where "c # cs = sub @ ss"
        by (auto simp: prefix_def)
      then have "c # cs = [] @ sub @ ss"
        by simp
      then show ?thesis by blast
    next
      case 2
      with Cons obtain ps ss where "cs = ps @ sub @ ss"
        by blast
      then have "c # cs = (c # ps) @ sub @ ss"
        by simp
      then show ?thesis by blast
    qed
  next
    assume "\<exists>ps ss. c # cs = ps @ sub @ ss"
    then obtain ps ss where eq: "c # cs = ps @ sub @ ss"
      by blast
    show "includesStr (c # cs) sub"
    proof (cases ps)
      case Nil
      with eq have "prefix sub (c # cs)"
        by (simp add: prefix_def)
      then show ?thesis by simp
    next
      case (Cons p ps')
      with eq have "cs = ps' @ sub @ ss"
        by simp
      with Cons.IH have "includesStr cs sub"
        by blast
      then show ?thesis by simp
    qed
  qed
qed

text \<open>The part of the guard that the code does have: while the status bar shows the
  thinking text or a comment, whatever the companion's name and the comment, no editor
  event schedules anything, whatever the draw.\<close>

lemma thinking_status_has_marker: "includesStr (name @ status_thinking) marker_thinking"
proof -
  have "name @ status_thinking = (name @ [58, 32]) @ marker_thinking @ [20013, 46, 46, 46]"
    by (simp add: status_thinking_def marker_thinking_def)
  then show ?thesis
    unfolding includesStr_iff by blast
qed

lemma comment_status_has_marker:
  "includesStr (name @ status_comment_infix @ comment) marker_comment"
proof -
  have "name @ status_comment_infix @ comment =
      (name @ [32, 40]) @ marker_comment @ ([41, 58, 32] @ comment)"
    by (simp add: status_comment_infix_def marker_comment_def)
  then show ?thesis
    unfolding includesStr_iff by blast
qed

lemma gate_closed_while_marker_shown:
  "includesStr (statusBarItemEl s) marker_thinking \<or> includesStr (statusBarItemEl s) marker_comment
     \<Longrightarrow> snd (handleEditorChange e random s) = None"
  by (auto simp: handleEditorChange_admits)

lemma step_EditorChange:
  "step (EditorChange e random) w =
     w\<lparr> plug := (plug w)\<lparr> lastTextLength := length (getValue e), lastCursorLine := cursorLine e \<rparr>,
        scheduled := scheduled w @
          (case snd (handleEditorChange e random (plug w)) of None \<Rightarrow> [] | Some ctx \<Rightarrow> [ctx]) \<rparr>"
proof -
  obtain s' r where pair: "handleEditorChange e random (plug w) = (s', r)"
    by (cases "handleEditorChange e random (plug w)")
  with handleEditorChange_snapshot [of e random "plug w"]
  have "s' = (plug w)\<lparr> lastTextLength := length (getValue e), lastCursorLine := cursorLine e \<rparr>"
    by simp
  with pair show ?thesis
    by (cases r) simp_all
qed

lemma handleEditorChange_admitted:
  assumes "isEnterPress s e" and "ai s \<noteq> None"
    and "random < randomCommentProbability (settings s)"
    and "contextContent (getValue e) (cursorLine e) = ctx" and "ctx \<noteq> []"
    and "\<not> includesStr (statusBarItemEl s) marker_comment"
    and "\<not> includesStr (statusBarItemEl s) marker_thinking"
  shows "snd (handleEditorChange e random s) = Some ctx"
  using assms by (simp add: handleEditorChange_admits)

lemma step_CommentTimer_with_client:
  "scheduled w = ctx # rest \<Longrightarrow> ai (plug w) = Some cl \<Longrightarrow>
     step CommentTimer w =
       w\<lparr> plug := updateStatusBar (companionName (settings (plug w)) @ status_thinking) (plug w),
          scheduled := rest, outstanding := outstanding w @ [ctx] \<rparr>"
  by (simp add: updateStatusBar_def Let_def)

lemma step_CommentResponse_first:
  "outstanding w = ctx # rest \<Longrightarrow>
     step (CommentResponse 0 outcome) w =
       w\<lparr> plug := updateStatusBar (companionName (settings (plug w)) @ status_comment_infix
                      @ afterGenerateContent Comment outcome) (plug w),
          outstanding := rest, reverts := reverts w + 1 \<rparr>"
  by simp

lemma ex_e2_fields: "length (getValue ex_e2) = 4" "cursorLine ex_e2 = 2"
  by (simp_all add: ex_e2_def)

lemma ex_reply_text: "afterGenerateContent Comment (Inr ex_reply) = ex_ok"
  by (simp add: afterGenerateContent_def responseText_def ex_reply_def ex_ok_def trim_def
      isWhiteSpace_def)

text \<open>
  Claim C3, evaluated where the code departs from it.  After a load with a credential and
  the default probability, two Enters arrive before the first 100 ms timer fires, each with a
  draw of 0.05.  The status bar still shows the standby text at the second one, so both are
  admitted and two timers are pending.  When the timers fire, each sets the thinking text and
  issues its call without looking at the status bar: two ambient calls are outstanding at
  once, and when the first reply comes the second call is still outstanding under a status
  bar that shows a comment.
\<close>

theorem two_ambient_calls_outstanding:
  "scheduled (run [EditorChange ex_e1 (1 / 20), EditorChange ex_e2 (1 / 20)] (boot ex_settings))
     = [[97], [97, 10, 98]]
   \<and> outstanding (run [EditorChange ex_e1 (1 / 20), EditorChange ex_e2 (1 / 20),
        CommentTimer, CommentTimer] (boot ex_settings)) = [[97], [97, 10, 98]]
   \<and> statusBarItemEl (plug (run [EditorChange ex_e1 (1 / 20), EditorChange ex_e2 (1 / 20),
        CommentTimer, CommentTimer] (boot ex_settings))) = DEFAULT_companionName @ status_thinking
   \<and> outstanding (run [EditorChange ex_e1 (1 / 20), EditorChange ex_e2 (1 / 20),
        CommentTimer, CommentTimer, CommentResponse 0 (Inr ex_reply)] (boot ex_settings))
       = [[97, 10, 98]]
   \<and> statusBarItemEl (plug (run [EditorChange ex_e1 (1 / 20), EditorChange ex_e2 (1 / 20),
        CommentTimer, CommentTimer, CommentResponse 0 (Inr ex_reply)] (boot ex_settings)))
       = DEFAULT_companionName @ status_comment_infix @ ex_ok"
proof -
  define s0 where "s0 = onload ex_settings"
  define s1 where "s1 = s0\<lparr> lastTextLength := length (getValue ex_e1),
    lastCursorLine := cursorLine ex_e1 \<rparr>"
  define s2 where "s2 = s1\<lparr> lastTextLength := length (getValue ex_e2),
    lastCursorLine := cursorLine ex_e2 \<rparr>"
  define s3 where "s3 = updateStatusBar (DEFAULT_companionName @ status_thinking) s2"
  define s5 where "s5 = updateStatusBar (DEFAULT_companionName @ status_comment_infix @ ex_ok) s3"
  define w0 where "w0 = \<lparr> plug = s0, scheduled = [], outstanding = [], reverts = 0,
    saving = [], onLayout = Some True \<rparr>"
  define w1 where "w1 = \<lparr> plug = s1, scheduled = [[97]], outstanding = [], reverts = 0,
    saving = [], onLayout = Some True \<rparr>"
  define w2 where "w2 = \<lparr> plug = s2, scheduled = [[97], [97, 10, 98]], outstanding = [],
    reverts = 0,
    saving = [], onLayout = Some True \<rparr>"
  define w3 where "w3 = \<lparr> plug = s3, scheduled = [[97, 10, 98]], outstanding = [[97]],
    reverts = 0,
    saving = [], onLayout = Some True \<rparr>"
  define w4 where "w4 = \<lparr> plug = s3, scheduled = [], outstanding = [[97], [97, 10, 98]],
    reverts = 0,
    saving = [], onLayout = Some True \<rparr>"
  define w5 where "w5 = \<lparr> plug = s5, scheduled = [], outstanding = [[97, 10, 98]],
    reverts = 1,
    saving = [], onLayout = Some True \<rparr>"
  have boot: "boot ex_settings = w0"
    by (simp add: boot_def w0_def s0_def ex_settings_fields)
  have gate0: "ai s0 \<noteq> None" "(1 / 20 :: real) < randomCommentProbability (settings s0)"
    "\<not> includesStr (statusBarItemEl s0) marker_comment"
    "\<not> includesStr (statusBarItemEl s0) marker_thinking"
    by (simp_all add: s0_def onload_ex_gate)
  have enter1: "isEnterPress s0 ex_e1"
    by (simp add: isEnterPress_def s0_def onload_ex_gate ex_e1_fields)
  have adm1: "snd (handleEditorChange ex_e1 (1 / 20) s0) = Some [97]"
    by (rule handleEditorChange_admitted [OF enter1 gate0(1) gate0(2) ctx_e1 _ gate0(3) gate0(4)])
      simp
  have step1: "step (EditorChange ex_e1 (1 / 20)) w0 = w1"
    by (simp add: step_EditorChange w0_def w1_def s1_def adm1 del: step.simps)
  have gate1: "ai s1 \<noteq> None" "(1 / 20 :: real) < randomCommentProbability (settings s1)"
    "\<not> includesStr (statusBarItemEl s1) marker_comment"
    "\<not> includesStr (statusBarItemEl s1) marker_thinking"
    using gate0 by (simp_all add: s1_def)
  have enter2: "isEnterPress s1 ex_e2"
    by (simp add: isEnterPress_def s1_def ex_e1_fields ex_e2_fields)
  have adm2: "snd (handleEditorChange ex_e2 (1 / 20) s1) = Some [97, 10, 98]"
    by (rule handleEditorChange_admitted [OF enter2 gate1(1) gate1(2) ctx_e2 _ gate1(3) gate1(4)])
      simp
  have step2: "step (EditorChange ex_e2 (1 / 20)) w1 = w2"
    by (simp add: step_EditorChange w1_def w2_def s2_def adm2 del: step.simps)
  have client2: "ai s2 = Some \<lparr> clientId = 0, clientApiKey = [107] \<rparr>"
    and name2: "companionName (settings s2) = DEFAULT_companionName"
    by (simp_all add: s2_def s1_def s0_def onload_ex ex_settings_fields)
  have step3: "step CommentTimer w2 = w3"
    using step_CommentTimer_with_client [of w2 "[97]" "[[97, 10, 98]]"
        "\<lparr> clientId = 0, clientApiKey = [107] \<rparr>"]
    by (simp add: w2_def w3_def s3_def client2 name2)
  have client3: "ai s3 = Some \<lparr> clientId = 0, clientApiKey = [107] \<rparr>"
    and name3: "companionName (settings s3) = DEFAULT_companionName"
    and status3: "statusBarItemEl s3 = DEFAULT_companionName @ status_thinking"
    by (simp_all add: s3_def updateStatusBar_def client2 name2)
  have again: "updateStatusBar (DEFAULT_companionName @ status_thinking) s3 = s3"
    by (simp add: s3_def updateStatusBar_def)
  have step4: "step CommentTimer w3 = w4"
    using step_CommentTimer_with_client [of w3 "[97, 10, 98]" "[]"
        "\<lparr> clientId = 0, clientApiKey = [107] \<rparr>"]
    by (simp add: w3_def w4_def client3 name3 again)
  have step5: "step (CommentResponse 0 (Inr ex_reply)) w4 = w5"
    using step_CommentResponse_first [of w4 "[97]" "[[97, 10, 98]]" "Inr ex_reply"]
    by (simp add: w4_def w5_def s5_def name3 ex_reply_text)
  have run2: "run [EditorChange ex_e1 (1 / 20), EditorChange ex_e2 (1 / 20)] (boot ex_settings) = w2"
    by (simp add: run_def boot step1 step2 del: step.simps)
  have run4: "run [EditorChange ex_e1 (1 / 20), EditorChange ex_e2 (1 / 20), CommentTimer,
      CommentTimer] (boot ex_settings) = w4"
    by (simp add: run_def boot step1 step2 step3 step4 del: step.simps)
  have run5: "run [EditorChange ex_e1 (1 / 20), EditorChange ex_e2 (1 / 20), CommentTimer,
      CommentTimer, CommentResponse 0 (Inr ex_reply)] (boot ex_settings) = w5"
    by (simp add: run_def boot step1 step2 step3 step4 step5 del: step.simps)
  have status5: "statusBarItemEl s5 = DEFAULT_companionName @ status_comment_infix @ ex_ok"
    by (simp add: s5_def updateStatusBar_def)
  show ?thesis
    unfolding run2 run4 run5 by (simp add: w2_def w4_def w5_def status3 status5)
qed

end
